theory Spec2Isabelle
  imports Complex_Main "HOL-Library.AList"
begin

text \<open>
  A model of the login risk detection and notification code of the mail system: the
  geolocation service, the login anomaly detector, the security notification service
  and the route that resolves an alert.

  Conventions. An \<open>async\<close> function is run to its end before its caller goes on,
  so one call sees one snapshot of the storage. What a \<open>try\<close>/\<open>catch\<close> does is
  written out: a function that can throw returns \<open>error + 'a\<close>, one that catches
  returns the value of its \<open>catch\<close> branch. Times are integers, milliseconds since the
  epoch, and one call reads the clock once. Scores and counts are integers, coordinates
  and distances reals. Log output is not modelled.
\<close>

section \<open>Regular expressions of the IP checks\<close>

text \<open>
  The geolocation service decides validity and privateness of an address with JavaScript
  regular expressions. They are transcribed as data and run by a backtracking matcher:
  \<open>remainders r s\<close> lists, in the order a backtracking engine tries them, the rests of
  \<open>s\<close> after every way \<open>r\<close> can consume a prefix of \<open>s\<close>.
\<close>

datatype rx = Eps | Cls string | Seq rx rx | Alt rx rx | Opt rx

fun remainders :: "rx \<Rightarrow> string \<Rightarrow> string list" where
  "remainders Eps s = [s]"
| "remainders (Cls cs) [] = []"
| "remainders (Cls cs) (c # s) = (if c \<in> set cs then [s] else [])"
| "remainders (Seq a b) s = concat (map (remainders b) (remainders a s))"
| "remainders (Alt a b) s = remainders a s @ remainders b s"
| "remainders (Opt a) s = remainders a s @ [s]"

text \<open>\<open>r{n}\<close> and \<open>r{lo,hi}\<close>.\<close>

fun rx_times :: "nat \<Rightarrow> rx \<Rightarrow> rx" where
  "rx_times 0 r = Eps"
| "rx_times (Suc n) r = Seq r (rx_times n r)"

fun rx_upto :: "nat \<Rightarrow> rx \<Rightarrow> rx" where
  "rx_upto 0 r = Eps"
| "rx_upto (Suc n) r = Opt (Seq r (rx_upto n r))"

definition rx_rep :: "nat \<Rightarrow> nat \<Rightarrow> rx \<Rightarrow> rx" where
  "rx_rep lo hi r = Seq (rx_times lo r) (rx_upto (hi - lo) r)"

text \<open>A literal string.\<close>

fun rx_lit :: "string \<Rightarrow> rx" where
  "rx_lit [] = Eps"
| "rx_lit (c # cs) = Seq (Cls [c]) (rx_lit cs)"

text \<open>\<open>/^r$/.test(s)\<close> and \<open>/^r/.test(s)\<close> (no flags: \<open>$\<close> is the end of the input).\<close>

definition test_anchored :: "rx \<Rightarrow> string \<Rightarrow> bool" where
  "test_anchored r s = ([] \<in> set (remainders r s))"

definition test_prefix :: "rx \<Rightarrow> string \<Rightarrow> bool" where
  "test_prefix r s = (remainders r s \<noteq> [])"

definition digit :: string where
  "digit = ''0123456789''"

definition hexdigit :: string where
  "hexdigit = ''0123456789abcdefABCDEF''"

text \<open>\<open>25[0-5]|2[0-4][0-9]|[01]?[0-9][0-9]?\<close>\<close>

definition octet :: rx where
  "octet = Alt (Seq (rx_lit ''25'') (Cls ''012345''))
          (Alt (Seq (rx_lit ''2'') (Seq (Cls ''01234'') (Cls digit)))
               (Seq (Opt (Cls ''01'')) (Seq (Cls digit) (Opt (Cls digit)))))"

text \<open>\<open>/^(?:(?:25[0-5]|2[0-4][0-9]|[01]?[0-9][0-9]?)\.){3}(?:25[0-5]|2[0-4][0-9]|[01]?[0-9][0-9]?)$/\<close>\<close>

definition ipv4Regex :: rx where
  "ipv4Regex = Seq (rx_times 3 (Seq octet (rx_lit ''.''))) octet"

text \<open>\<open>[0-9a-fA-F]{1,4}\<close> and \<open>/^(?:[0-9a-fA-F]{1,4}:){7}[0-9a-fA-F]{1,4}$/\<close>\<close>

definition hexgroup :: rx where
  "hexgroup = rx_rep 1 4 (Cls hexdigit)"

definition ipv6Regex :: rx where
  "ipv6Regex = Seq (rx_times 7 (Seq hexgroup (rx_lit '':''))) hexgroup"

definition isValidIP :: "string \<Rightarrow> bool" where
  "isValidIP ip = (test_anchored ipv4Regex ip \<or> test_anchored ipv6Regex ip)"

text \<open>
  \<open>privateRanges\<close>: \<open>/^10\./\<close>, \<open>/^172\.(1[6-9]|2[0-9]|3[0-1])\./\<close>, \<open>/^192\.168\./\<close>,
  \<open>/^127\./\<close>, \<open>/^169\.254\./\<close>, \<open>/^::1$/\<close>, \<open>/^fc00:/\<close>, \<open>/^fe80:/\<close>.
\<close>

definition range172 :: rx where
  "range172 = Seq (rx_lit ''172.'')
     (Seq (Alt (Seq (rx_lit ''1'') (Cls ''6789''))
          (Alt (Seq (rx_lit ''2'') (Cls digit)) (Seq (rx_lit ''3'') (Cls ''01''))))
       (rx_lit ''.''))"

definition isPrivateIP :: "string \<Rightarrow> bool" where
  "isPrivateIP ip =
     (test_prefix (rx_lit ''10.'') ip \<or>
      test_prefix range172 ip \<or>
      test_prefix (rx_lit ''192.168.'') ip \<or>
      test_prefix (rx_lit ''127.'') ip \<or>
      test_prefix (rx_lit ''169.254.'') ip \<or>
      test_anchored (rx_lit ''::1'') ip \<or>
      test_prefix (rx_lit ''fc00:'') ip \<or>
      test_prefix (rx_lit ''fe80:'') ip)"

section \<open>GeoLocationService\<close>

datatype error = TypeError | UnknownProvider | RateLimited | UpstreamFailure | PersistenceFailure

text \<open>
  A location object. JavaScript \<open>null\<close>/\<open>undefined\<close> is \<open>None\<close>. \<open>last_updated\<close>
  (milliseconds since the epoch) is present only on objects read from the cache table.
\<close>

record LocationInfo =
  country :: "string option"
  region :: "string option"
  city :: "string option"
  latitude :: "real option"
  longitude :: "real option"
  timezone :: "string option"
  isp :: "string option"
  is_proxy :: bool
  is_vpn :: bool
  is_tor :: bool
  threat_level :: string
  last_updated :: "int option"

definition getDefaultLocationInfo :: LocationInfo where
  "getDefaultLocationInfo =
     \<lparr>country = Some ''Unknown'', region = Some ''Unknown'', city = Some ''Unknown'',
      latitude = None, longitude = None, timezone = None, isp = Some ''Unknown'',
      is_proxy = False, is_vpn = False, is_tor = False, threat_level = ''low'',
      last_updated = None\<rparr>"

text \<open>The body of a provider's answer: the fields \<open>normalizeResponse\<close> reads.\<close>

record api_data =
  d_status :: "string option"
  d_country :: "string option"
  d_regionName :: "string option"
  d_region :: "string option"
  d_city :: "string option"
  d_lat :: "real option"
  d_lon :: "real option"
  d_timezone :: "string option"
  d_isp :: "string option"
  d_org :: "string option"
  d_proxy :: "bool option"
  d_loc :: "string option"

text \<open>
  \<open>axios.get\<close>: it throws (time-out, status outside 2xx), or resolves with a body, which
  may be \<open>null\<close>.
\<close>

datatype http_result = HttpError | HttpOk "api_data option"

datatype dbop = SelectGeoCache | UpsertGeoCache | SelectRecentLogins | CountAttempts
  | SelectTrustedDevice | CountTrustedDevices | SelectLoginPattern | SelectMaxSessions
  | CountActiveSessions | InsertLoginLog

text \<open>
  What a call reads from outside the program: the clock (milliseconds since the epoch),
  the process environment, the upstream provider, which storage operations fail, and the
  library functions that are not part of the repository: \<open>parseFloat\<close> and
  \<open>parseInt\<close> (\<open>None\<close> is NaN), \<open>ua-parser-js\<close>, the SHA-256 hex digest, SQL's
  \<open>HOUR\<close>, and the hour of a moment in a named time zone (\<open>None\<close> when
  \<open>toLocaleString\<close> rejects the zone).
\<close>

record ua_result =
  ua_device_type :: "string option"
  ua_browser_name :: "string option"
  ua_browser_version :: "string option"
  ua_os_name :: "string option"
  ua_os_version :: "string option"

record env =
  now :: int
  currentProvider :: string
  axios_get :: "string \<Rightarrow> http_result"
  db_fails :: "dbop \<Rightarrow> bool"
  parseFloat :: "string option \<Rightarrow> real option"
  parseInt :: "string \<Rightarrow> int option"
  uaParser :: "string \<Rightarrow> ua_result"
  sha256_hex :: "string \<Rightarrow> string"
  sqlHour :: "int \<Rightarrow> int"
  hourInTimezone :: "string \<Rightarrow> int \<Rightarrow> int option"

datatype event = CacheRead string | UpstreamCall string | CacheWrite string

text \<open>
  The mutable state the service touches: the table \<open>ip_geolocation_cache\<close> (keyed by
  address), the in-memory \<open>rateLimitCounter\<close> (a Map from minute to count), and the
  storage and network operations issued so far, oldest first.
\<close>

record geo_state =
  geo_cache :: "(string \<times> LocationInfo) list"
  rateLimitCounter :: "(int \<times> nat) list"
  events :: "event list"

text \<open>
  The property names every object literal inherits from \<open>Object.prototype\<close>. A lookup
  \<open>obj[name]\<close> with one of them finds the inherited value, which is truthy and has none
  of the object's own fields.
\<close>

definition object_prototype_keys :: "string list" where
  "object_prototype_keys =
     [''constructor'', ''__defineGetter__'', ''__defineSetter__'', ''hasOwnProperty'',
      ''__lookupGetter__'', ''__lookupSetter__'', ''isPrototypeOf'',
      ''propertyIsEnumerable'', ''toString'', ''valueOf'', ''__proto__'',
      ''toLocaleString'']"

text \<open>
  \<open>this.providers[name]\<close>: the URL template and the request quota of a provider;
  \<open>None\<close> when the lookup gives \<open>undefined\<close>.
\<close>

record provider =
  p_url :: "string option"
  p_rateLimit :: "nat option"

definition providers :: "string \<Rightarrow> provider option" where
  "providers name =
     (if name = ''ipapi''
      then Some \<lparr>p_url = Some (''http://ip-api.com/json/{ip}?fields=status,message,country,'' @
                              ''regionName,city,lat,lon,timezone,isp,proxy''),
                  p_rateLimit = Some 45\<rparr>
      else if name = ''ipinfo''
      then Some \<lparr>p_url = Some ''https://ipinfo.io/{ip}/json'', p_rateLimit = Some 50000\<rparr>
      else if name = ''maxmind''
      then Some \<lparr>p_url = Some ''https://geoip.maxmind.com/geoip/v2.1/city/{ip}'',
                  p_rateLimit = Some 1000\<rparr>
      else if name \<in> set object_prototype_keys
      then Some \<lparr>p_url = None, p_rateLimit = None\<rparr>
      else None)"

text \<open>\<open>String.prototype.split(',')\<close>, first two parts (a missing part is \<open>undefined\<close>).\<close>

fun split_comma :: "string \<Rightarrow> string \<Rightarrow> string list" where
  "split_comma acc [] = [rev acc]"
| "split_comma acc (c # s) =
     (if c = CHR '','' then rev acc # split_comma [] s else split_comma (c # acc) s)"

fun nth_opt :: "'a list \<Rightarrow> nat \<Rightarrow> 'a option" where
  "nth_opt [] n = None"
| "nth_opt (x # xs) 0 = Some x"
| "nth_opt (x # xs) (Suc n) = nth_opt xs n"

text \<open>\<open>x || null\<close> on a number: 0 and NaN are falsy.\<close>

definition or_null :: "real option \<Rightarrow> real option" where
  "or_null x = (case x of None \<Rightarrow> None | Some v \<Rightarrow> if v = 0 then None else Some v)"

definition normalizeResponse :: "env \<Rightarrow> api_data option \<Rightarrow> error + LocationInfo" where
  "normalizeResponse e body =
     (let normalized =
        \<lparr>country = None, region = None, city = None, latitude = None, longitude = None,
         timezone = None, isp = None, is_proxy = False, is_vpn = False, is_tor = False,
         threat_level = ''low'', last_updated = None\<rparr>
      in if currentProvider e = ''ipapi'' then
           (case body of
              None \<Rightarrow> Inl TypeError
            | Some d \<Rightarrow>
                if d_status d = Some ''success'' then
                  Inr \<lparr>country = d_country d, region = d_regionName d, city = d_city d,
                       latitude = d_lat d, longitude = d_lon d, timezone = d_timezone d,
                       isp = d_isp d, is_proxy = (d_proxy d = Some True), is_vpn = False,
                       is_tor = False,
                       threat_level = (if d_proxy d = Some True then ''medium'' else ''low''),
                       last_updated = None\<rparr>
                else Inr normalized)
         else if currentProvider e = ''ipinfo'' then
           (case body of
              None \<Rightarrow> Inl TypeError
            | Some d \<Rightarrow>
                let (part0, part1) =
                      (case d_loc d of
                         None \<Rightarrow> (None, None)
                       | Some l \<Rightarrow> if l = [] then (None, None)
                                   else (nth_opt (split_comma [] l) 0,
                                         nth_opt (split_comma [] l) 1))
                in Inr \<lparr>country = d_country d, region = d_region d, city = d_city d,
                        latitude = or_null (parseFloat e part0),
                        longitude = or_null (parseFloat e part1),
                        timezone = d_timezone d, isp = d_org d, is_proxy = False,
                        is_vpn = False, is_tor = False, threat_level = ''low'',
                        last_updated = None\<rparr>)
         else Inr normalized)"

text \<open>
  \<open>checkRateLimit\<close>: drop the counters older than one minute, add up the rest, refuse at
  the quota, else count this request under the current minute. Against an \<open>undefined\<close>
  quota the comparison is false.
\<close>

definition checkRateLimit :: "env \<Rightarrow> geo_state \<Rightarrow> bool \<times> geo_state" where
  "checkRateLimit e s =
     (case providers (currentProvider e) of
        None \<Rightarrow> (False, s)
      | Some provider \<Rightarrow>
          let windowStart = now e - 60000;
              kept = filter (\<lambda>(timestamp, count). \<not> timestamp < windowStart)
                       (rateLimitCounter s);
              currentRequests = sum_list (map snd
                       (filter (\<lambda>(timestamp, count). timestamp \<ge> windowStart) kept));
              s1 = s\<lparr>rateLimitCounter := kept\<rparr>
          in if (case p_rateLimit provider of
                   None \<Rightarrow> False
                 | Some rateLimit \<Rightarrow> currentRequests \<ge> rateLimit)
             then (False, s1)
             else
               let currentMinute = (now e div 60000) * 60000;
                   old = (case map_of kept currentMinute of None \<Rightarrow> 0 | Some c \<Rightarrow> c)
               in (True, s1\<lparr>rateLimitCounter :=
                                AList.update currentMinute (old + 1) kept\<rparr>))"

text \<open>
  \<open>fetchFromAPI\<close>. \<open>provider.url.replace\<close> throws when the provider has no URL; the
  request itself, with the provider's URL and credentials for this address, is
  \<open>axios_get e ip\<close>.
\<close>

definition fetchFromAPI :: "env \<Rightarrow> string \<Rightarrow> geo_state \<Rightarrow> (error + LocationInfo) \<times> geo_state" where
  "fetchFromAPI e ip s =
     (case providers (currentProvider e) of
        None \<Rightarrow> (Inl UnknownProvider, s)
      | Some provider \<Rightarrow>
          (case checkRateLimit e s of
             (False, s1) \<Rightarrow> (Inl RateLimited, s1)
           | (True, s1) \<Rightarrow>
               (case p_url provider of
                  None \<Rightarrow> (Inl TypeError, s1)
                | Some url \<Rightarrow>
                    let s2 = s1\<lparr>events := events s1 @ [UpstreamCall ip]\<rparr>
                    in (case axios_get e ip of
                          HttpError \<Rightarrow> (Inl UpstreamFailure, s2)
                        | HttpOk body \<Rightarrow> (normalizeResponse e body, s2)))))"

text \<open>\<open>getCachedLocation\<close>: a failing query is logged and read as no entry.\<close>

definition getCachedLocation :: "env \<Rightarrow> string \<Rightarrow> geo_state \<Rightarrow> LocationInfo option \<times> geo_state" where
  "getCachedLocation e ip s =
     (let s1 = s\<lparr>events := events s @ [CacheRead ip]\<rparr>
      in if db_fails e SelectGeoCache then (None, s1) else (map_of (geo_cache s) ip, s1))"

text \<open>
  \<open>saveCachedLocation\<close>: insert, or on a duplicate key update, with
  \<open>last_updated = CURRENT_TIMESTAMP\<close>; a failing statement is logged and swallowed.
\<close>

definition saveCachedLocation :: "env \<Rightarrow> string \<Rightarrow> LocationInfo \<Rightarrow> geo_state \<Rightarrow> geo_state" where
  "saveCachedLocation e ip locationData s =
     (let s1 = s\<lparr>events := events s @ [CacheWrite ip]\<rparr>
      in if db_fails e UpsertGeoCache then s1
         else s1\<lparr>geo_cache :=
                    AList.update ip (locationData\<lparr>last_updated := Some (now e)\<rparr>)
                      (geo_cache s1)\<rparr>)"

definition isCacheValid :: "env \<Rightarrow> LocationInfo \<Rightarrow> bool" where
  "isCacheValid e cachedData =
     (case last_updated cachedData of
        None \<Rightarrow> False
      | Some t \<Rightarrow> let cacheAge = now e - t; maxAge = 24 * 60 * 60 * 1000
                  in cacheAge < maxAge)"

text \<open>
  \<open>getLocationInfo\<close>. The whole body runs inside \<open>try\<close>; whatever is thrown is logged
  and answered with the default location. State changes made before the throw remain.
\<close>

definition getLocationInfo :: "env \<Rightarrow> string \<Rightarrow> geo_state \<Rightarrow> LocationInfo \<times> geo_state" where
  "getLocationInfo e ip s =
     (if \<not> isValidIP ip \<or> isPrivateIP ip then (getDefaultLocationInfo, s)
      else
        (case getCachedLocation e ip s of
           (cached, s1) \<Rightarrow>
             (case (case cached of Some c \<Rightarrow> if isCacheValid e c then Some c else None
                                 | None \<Rightarrow> None) of
                Some c \<Rightarrow> (c, s1)
              | None \<Rightarrow>
                  (case fetchFromAPI e ip s1 of
                     (Inl err, s2) \<Rightarrow> (getDefaultLocationInfo, s2)
                   | (Inr locationData, s2) \<Rightarrow>
                       (locationData, saveCachedLocation e ip locationData s2)))))"

text \<open>The events a call of \<open>getLocationInfo\<close> appends to the log.\<close>

definition issued :: "env \<Rightarrow> string \<Rightarrow> geo_state \<Rightarrow> event list" where
  "issued e ip s = drop (length (events s)) (events (snd (getLocationInfo e ip s)))"

text \<open>Every key of the cache table is an address that passes the validity gate.\<close>

definition cache_wf :: "geo_state \<Rightarrow> bool" where
  "cache_wf s = list_all (\<lambda>(ip, loc). isValidIP ip \<and> \<not> isPrivateIP ip) (geo_cache s)"

subsection \<open>Distance\<close>

text \<open>
  JavaScript numbers are modelled as reals; \<open>None\<close> is \<open>null\<close>, \<open>undefined\<close> or NaN.
  \<open>!x\<close> holds of these and of zero. The reals have no rounding: in IEEE doubles
  \<open>1 - a\<close> can come out negative for two nearly antipodal points, and the result is
  then NaN, a case the model does not have.
\<close>

definition falsy :: "real option \<Rightarrow> bool" where
  "falsy x = (case x of None \<Rightarrow> True | Some v \<Rightarrow> v = 0)"

definition toRadians :: "real \<Rightarrow> real" where
  "toRadians degrees = degrees * (pi / 180)"

text \<open>\<open>Math.atan2(y, x)\<close>\<close>

definition atan2 :: "real \<Rightarrow> real \<Rightarrow> real" where
  "atan2 y x =
     (if x > 0 then arctan (y / x)
      else if x < 0 \<and> y \<ge> 0 then arctan (y / x) + pi
      else if x < 0 then arctan (y / x) - pi
      else if y > 0 then pi / 2
      else if y < 0 then - (pi / 2)
      else 0)"

definition calculateDistance ::
  "real option \<Rightarrow> real option \<Rightarrow> real option \<Rightarrow> real option \<Rightarrow> real option" where
  "calculateDistance lat1 lon1 lat2 lon2 =
     (if falsy lat1 \<or> falsy lon1 \<or> falsy lat2 \<or> falsy lon2 then None
      else
        (case (lat1, lon1, lat2, lon2) of
           (Some la1, Some lo1, Some la2, Some lo2) \<Rightarrow>
             let R = 6371;
                 dLat = toRadians (la2 - la1);
                 dLon = toRadians (lo2 - lo1);
                 a = sin (dLat / 2) * sin (dLat / 2) +
                     cos (toRadians la1) * cos (toRadians la2) *
                     sin (dLon / 2) * sin (dLon / 2);
                 c = 2 * atan2 (sqrt a) (sqrt (1 - a))
             in Some (R * c)
         | _ \<Rightarrow> None))"


section \<open>LoginAnomalyDetector\<close>

text \<open>
  A rule of the table \<open>login_risk_rules\<close> as \<open>loadRiskRules\<close> keeps it. The conditions
  are parsed JSON; a property the JSON lacks is \<open>None\<close>.
\<close>

record RuleConditions =
  max_distance_km :: "real option"
  time_window_hours :: "real option"
  time_window_minutes :: "int option"
  max_attempts :: "int option"
  normal_hours :: "int list option"

record RiskRule =
  rule_type :: string
  rule_description :: string
  rule_riskScore :: int
  conditions :: RuleConditions

type_synonym rules = "string \<Rightarrow> RiskRule option"

text \<open>
  The keys under which the checks look their rule up in \<open>this.riskRules\<close>. They are
  Chinese names; each is given as its UTF-8 bytes.
\<close>

definition rule_geographic :: string where
  "rule_geographic =
     [CHR 0xE5, CHR 0xBC, CHR 0x82, CHR 0xE5, CHR 0xB8, CHR 0xB8, CHR 0xE5, CHR 0x9C,
      CHR 0xB0, CHR 0xE7, CHR 0x90, CHR 0x86, CHR 0xE4, CHR 0xBD, CHR 0x8D, CHR 0xE7,
      CHR 0xBD, CHR 0xAE]"

definition rule_suspicious_ip :: string where
  "rule_suspicious_ip =
     [CHR 0xE5, CHR 0x8F, CHR 0xAF, CHR 0xE7, CHR 0x96, CHR 0x91, CHR 0x49, CHR 0x50,
      CHR 0xE5, CHR 0x9C, CHR 0xB0, CHR 0xE5, CHR 0x9D, CHR 0x80]"

definition rule_frequency :: string where
  "rule_frequency =
     [CHR 0xE9, CHR 0xA2, CHR 0x91, CHR 0xE7, CHR 0xB9, CHR 0x81, CHR 0xE7, CHR 0x99,
      CHR 0xBB, CHR 0xE5, CHR 0xBD, CHR 0x95, CHR 0xE5, CHR 0xB0, CHR 0x9D, CHR 0xE8,
      CHR 0xAF, CHR 0x95]"

definition rule_new_device :: string where
  "rule_new_device =
     [CHR 0xE6, CHR 0x96, CHR 0xB0, CHR 0xE8, CHR 0xAE, CHR 0xBE, CHR 0xE5, CHR 0xA4,
      CHR 0x87, CHR 0xE7, CHR 0x99, CHR 0xBB, CHR 0xE5, CHR 0xBD, CHR 0x95]"

definition rule_time :: string where
  "rule_time =
     [CHR 0xE5, CHR 0xBC, CHR 0x82, CHR 0xE5, CHR 0xB8, CHR 0xB8, CHR 0xE6, CHR 0x97,
      CHR 0xB6, CHR 0xE9, CHR 0x97, CHR 0xB4, CHR 0xE7, CHR 0x99, CHR 0xBB, CHR 0xE5,
      CHR 0xBD, CHR 0x95]"


record DeviceInfo =
  device_type :: string
  browser :: string
  os :: string

record LoginData =
  ip_address :: string
  user_agent :: string
  session_token_hash :: string

text \<open>A row of \<open>user_login_logs\<close>.\<close>

record LoginLog =
  l_user_id :: nat
  l_session_token_hash :: string
  l_ip_address :: string
  l_user_agent :: string
  l_country :: "string option"
  l_region :: "string option"
  l_city :: "string option"
  l_latitude :: "real option"
  l_longitude :: "real option"
  l_timezone :: "string option"
  l_device_type :: string
  l_browser :: string
  l_os :: string
  l_risk_score :: int
  l_is_suspicious :: bool
  l_login_time :: int
  l_is_active :: bool

datatype factor = Proxy | VPN | Tor | HighThreat | MediumThreat

text \<open>The \<open>details\<close> object of a check's result.\<close>

datatype details =
    NoDetails
  | GeoDetails real real LoginLog
  | IpDetails "factor list" string
  | FreqDetails int "int option" string
  | DeviceDetails string DeviceInfo
  | TimeDetails int "int list" "string option"
  | SessionDetails int int

text \<open>
  What a check returns. The message \<open>reason\<close> is text rendered from the values kept in
  \<open>details\<close>; it is left out, and with it \<open>suspiciousReasons\<close>, the list of the messages
  of \<open>anomalies\<close>.
\<close>

record CheckResult =
  isAnomalous :: bool
  riskScore :: int
  atype :: string
  details :: details

definition notAnomalous :: CheckResult where
  "notAnomalous = \<lparr>isAnomalous = False, riskScore = 0, atype = [], details = NoDetails\<rparr>"

record RiskAssessment =
  totalRiskScore :: int
  isSuspicious :: bool
  anomalies :: "CheckResult list"
  locationInfo :: LocationInfo
  deviceInfo :: DeviceInfo

text \<open>
  The storage the detector works on: the geolocation service's state, the tables
  \<open>user_login_logs\<close>, \<open>user_trusted_devices\<close> (user and fingerprint of each row) and
  \<open>security_settings\<close>.
\<close>

record world =
  geo :: geo_state
  login_logs :: "LoginLog list"
  trusted_devices :: "(nat \<times> string) list"
  settings :: "(string \<times> string) list"

text \<open>Comparisons with a number that may be \<open>undefined\<close> are false.\<close>

definition js_ge :: "int \<Rightarrow> int option \<Rightarrow> bool" where
  "js_ge x y = (case y of None \<Rightarrow> False | Some v \<Rightarrow> x \<ge> v)"

text \<open>
  \<open>distance > max\<close> and \<open>timeDiff < window\<close>: a \<open>null\<close> distance counts as 0, an
  \<open>undefined\<close> bound makes the comparison false.
\<close>

definition js_gt_real :: "real option \<Rightarrow> real option \<Rightarrow> bool" where
  "js_gt_real x y =
     (case y of None \<Rightarrow> False
      | Some v \<Rightarrow> (case x of None \<Rightarrow> 0 > v | Some u \<Rightarrow> u > v))"

definition js_lt_real :: "real \<Rightarrow> real option \<Rightarrow> bool" where
  "js_lt_real x y = (case y of None \<Rightarrow> False | Some v \<Rightarrow> x < v)"

text \<open>A value inside a template string.\<close>

definition tmpl :: "string option \<Rightarrow> string" where
  "tmpl x = (case x of None \<Rightarrow> ''undefined'' | Some v \<Rightarrow> v)"

definition getDeviceType :: "string option \<Rightarrow> string" where
  "getDeviceType t =
     (if t = Some ''mobile'' then ''mobile''
      else if t = Some ''tablet'' then ''tablet''
      else ''desktop'')"

definition generateDeviceFingerprint :: "env \<Rightarrow> DeviceInfo \<Rightarrow> string \<Rightarrow> string" where
  "generateDeviceFingerprint e devInfo ipAddress =
     sha256_hex e (device_type devInfo @ ''-'' @ browser devInfo @ ''-'' @
                   os devInfo @ ''-'' @ ipAddress)"

subsection \<open>Geographic anomaly\<close>

text \<open>
  The loop over the recent logins. When the condition holds for a row whose distance is
  \<open>null\<close>, \<open>distance.toFixed\<close> throws and the check's \<open>catch\<close> answers not anomalous.
\<close>

fun geo_loop :: "env \<Rightarrow> RiskRule \<Rightarrow> LocationInfo \<Rightarrow> LoginLog list \<Rightarrow> CheckResult" where
  "geo_loop e rule currentLocation [] = notAnomalous"
| "geo_loop e rule currentLocation (recentLogin # rest) =
     (let distance = calculateDistance (latitude currentLocation) (longitude currentLocation)
                       (l_latitude recentLogin) (l_longitude recentLogin);
          timeDiff = real_of_int (now e - l_login_time recentLogin) / 1000 / 3600
      in if js_gt_real distance (max_distance_km (conditions rule)) \<and>
            js_lt_real timeDiff (time_window_hours (conditions rule))
         then (case distance of
                 None \<Rightarrow> notAnomalous
               | Some d \<Rightarrow> \<lparr>isAnomalous = True, riskScore = rule_riskScore rule,
                             atype = ''geographic_anomaly'',
                             details = GeoDetails d timeDiff recentLogin\<rparr>)
         else geo_loop e rule currentLocation rest)"

definition recentLogins24h :: "env \<Rightarrow> nat \<Rightarrow> world \<Rightarrow> LoginLog list" where
  "recentLogins24h e userId w =
     take 5 (rev (sort_key l_login_time
       (filter (\<lambda>r. l_user_id r = userId \<and> l_latitude r \<noteq> None \<and> l_longitude r \<noteq> None \<and>
                     l_login_time r \<ge> now e - 24 * 3600000)
          (login_logs w))))"

definition checkGeographicAnomaly :: "env \<Rightarrow> rules \<Rightarrow> nat \<Rightarrow> LocationInfo \<Rightarrow> world \<Rightarrow> CheckResult" where
  "checkGeographicAnomaly e rules userId currentLocation w =
     (if falsy (latitude currentLocation) \<or> falsy (longitude currentLocation) then notAnomalous
      else if db_fails e SelectRecentLogins then notAnomalous
      else
        let recentLogins = recentLogins24h e userId w
        in if length recentLogins = 0 then notAnomalous
           else (case rules rule_geographic of
                   None \<Rightarrow> notAnomalous
                 | Some rule \<Rightarrow> geo_loop e rule currentLocation recentLogins))"

subsection \<open>IP reputation\<close>

definition checkIPReputation :: "rules \<Rightarrow> LocationInfo \<Rightarrow> CheckResult" where
  "checkIPReputation rules locInfo =
     (case rules rule_suspicious_ip of
        None \<Rightarrow> notAnomalous
      | Some rule \<Rightarrow>
          let (factors1, score1) =
                (if is_proxy locInfo then ([Proxy], 20) else ([], 0));
              (factors2, score2) =
                (if is_vpn locInfo then (factors1 @ [VPN], score1 + 15) else (factors1, score1));
              (factors3, score3) =
                (if is_tor locInfo then (factors2 @ [Tor], score2 + 30) else (factors2, score2));
              (suspiciousFactors, score) =
                (if threat_level locInfo = ''high'' then (factors3 @ [HighThreat], score3 + 25)
                 else if threat_level locInfo = ''medium''
                 then (factors3 @ [MediumThreat], score3 + 15)
                 else (factors3, score3))
          in if length suspiciousFactors > 0
             then \<lparr>isAnomalous = True, riskScore = min score (rule_riskScore rule),
                   atype = ''ip_reputation'',
                   details = IpDetails suspiciousFactors (threat_level locInfo)\<rparr>
             else notAnomalous)"

subsection \<open>Login frequency\<close>

definition checkLoginFrequency :: "env \<Rightarrow> rules \<Rightarrow> nat \<Rightarrow> string \<Rightarrow> world \<Rightarrow> CheckResult" where
  "checkLoginFrequency e rules userId ipAddress w =
     (case rules rule_frequency of
        None \<Rightarrow> notAnomalous
      | Some rule \<Rightarrow>
          let timeWindow = time_window_minutes (conditions rule);
              maxAttempts = max_attempts (conditions rule)
          in if db_fails e CountAttempts then notAnomalous
             else
               let attemptCount =
                     (case timeWindow of
                        None \<Rightarrow> 0
                      | Some m \<Rightarrow> int (length (filter
                          (\<lambda>r. l_ip_address r = ipAddress \<and> l_login_time r \<ge> now e - m * 60000)
                          (login_logs w))))
               in if js_ge attemptCount maxAttempts
                  then \<lparr>isAnomalous = True, riskScore = rule_riskScore rule,
                        atype = ''login_frequency'',
                        details = FreqDetails attemptCount timeWindow ipAddress\<rparr>
                  else notAnomalous)"

subsection \<open>New device\<close>

definition checkDeviceAnomaly ::
  "env \<Rightarrow> rules \<Rightarrow> nat \<Rightarrow> DeviceInfo \<Rightarrow> string \<Rightarrow> world \<Rightarrow> CheckResult" where
  "checkDeviceAnomaly e rules userId devInfo ipAddress w =
     (case rules rule_new_device of
        None \<Rightarrow> notAnomalous
      | Some rule \<Rightarrow>
          let deviceFingerprint = generateDeviceFingerprint e devInfo ipAddress
          in if db_fails e SelectTrustedDevice then notAnomalous
             else
               let knownDevice = filter (\<lambda>(u, f). u = userId \<and> f = deviceFingerprint)
                                   (trusted_devices w)
               in if length knownDevice = 0 then
                    (if db_fails e CountTrustedDevices then notAnomalous
                     else
                       let device_count = length (filter (\<lambda>(u, f). u = userId)
                                                    (trusted_devices w));
                           isFirstDevice = (device_count = 0)
                       in if \<not> isFirstDevice
                          then \<lparr>isAnomalous = True, riskScore = rule_riskScore rule,
                                atype = ''new_device'',
                                details = DeviceDetails deviceFingerprint devInfo\<rparr>
                          else notAnomalous)
                  else notAnomalous)"

subsection \<open>Time of day\<close>

text \<open>
  \<open>getUserLoginPattern\<close>: the hours of the user's logins of the last 30 days that occur
  at least three times, most frequent first; \<open>[]\<close> when the query fails.
\<close>

definition getUserLoginPattern :: "env \<Rightarrow> nat \<Rightarrow> world \<Rightarrow> (int \<times> nat) list" where
  "getUserLoginPattern e userId w =
     (if db_fails e SelectLoginPattern then []
      else
        let recent = filter (\<lambda>r. l_user_id r = userId \<and>
                                  l_login_time r \<ge> now e - 30 * 24 * 3600000) (login_logs w);
            hours = remdups (map (\<lambda>r. sqlHour e (l_login_time r)) recent);
            counted = map (\<lambda>h. (h, length (filter (\<lambda>r. sqlHour e (l_login_time r) = h) recent)))
                        hours
        in rev (sort_key snd (filter (\<lambda>(h, c). c \<ge> 3) counted)))"

definition getCurrentHourInTimezone :: "env \<Rightarrow> string option \<Rightarrow> int option" where
  "getCurrentHourInTimezone e tz =
     (case tz of
        None \<Rightarrow> None
      | Some z \<Rightarrow> if z = [] then None else hourInTimezone e z (now e))"

definition checkTimeAnomaly :: "env \<Rightarrow> rules \<Rightarrow> nat \<Rightarrow> string option \<Rightarrow> world \<Rightarrow> CheckResult" where
  "checkTimeAnomaly e rules userId tz w =
     (case rules rule_time of
        None \<Rightarrow> notAnomalous
      | Some rule \<Rightarrow>
          let userLoginPattern = getUserLoginPattern e userId w
          in (case getCurrentHourInTimezone e tz of
                None \<Rightarrow> notAnomalous
              | Some currentHour \<Rightarrow>
                  (case normal_hours (conditions rule) of
                     None \<Rightarrow> notAnomalous
                   | Some normalHours \<Rightarrow>
                       let isNormalTime = (currentHour \<in> set normalHours)
                       in if length userLoginPattern > 0 then
                            (let userNormalHours = map fst userLoginPattern;
                                 isUserNormalTime = (currentHour \<in> set userNormalHours)
                             in if \<not> isUserNormalTime
                                then \<lparr>isAnomalous = True, riskScore = rule_riskScore rule,
                                      atype = ''time_anomaly'',
                                      details = TimeDetails currentHour userNormalHours tz\<rparr>
                                else notAnomalous)
                          else if \<not> isNormalTime
                          then \<lparr>isAnomalous = True, riskScore = rule_riskScore rule,
                                atype = ''time_anomaly'',
                                details = TimeDetails currentHour normalHours tz\<rparr>
                          else notAnomalous)))"

subsection \<open>Concurrent sessions\<close>

definition checkConcurrentSessions :: "env \<Rightarrow> nat \<Rightarrow> world \<Rightarrow> CheckResult" where
  "checkConcurrentSessions e userId w =
     (if db_fails e SelectMaxSessions then notAnomalous
      else
        let maxSessions = (case map_of (settings w) ''max_concurrent_sessions'' of
                             None \<Rightarrow> Some 5
                           | Some v \<Rightarrow> parseInt e v)
        in if db_fails e CountActiveSessions then notAnomalous
           else
             let sessionCount = int (length (filter (\<lambda>r. l_user_id r = userId \<and> l_is_active r)
                                               (login_logs w)))
             in (case maxSessions of
                   None \<Rightarrow> notAnomalous
                 | Some m \<Rightarrow>
                     if sessionCount \<ge> m
                     then \<lparr>isAnomalous = True, riskScore = 25, atype = ''concurrent_sessions'',
                           details = SessionDetails sessionCount m\<rparr>
                     else notAnomalous))"

subsection \<open>Recording and aggregation\<close>

text \<open>
  \<open>recordLoginLog\<close>: the insert; when it fails the error is logged and thrown again.
  \<open>login_time\<close> and \<open>is_active\<close> take the column defaults.
\<close>

definition recordLoginLog :: "env \<Rightarrow> LoginLog \<Rightarrow> world \<Rightarrow> error + world" where
  "recordLoginLog e row w =
     (if db_fails e InsertLoginLog then Inl PersistenceFailure
      else Inr (w\<lparr>login_logs := login_logs w @ [row]\<rparr>))"

text \<open>
  One block of \<open>detectAnomalies\<close>: \<open>if (c.isAnomalous) { totalRiskScore += c.riskScore;
  anomalies.push(c) }\<close>.
\<close>

definition add_check :: "CheckResult \<Rightarrow> int \<times> CheckResult list \<Rightarrow> int \<times> CheckResult list" where
  "add_check c acc =
     (case acc of (score_sum, anoms) \<Rightarrow>
        if isAnomalous c then (score_sum + riskScore c, anoms @ [c]) else (score_sum, anoms))"

definition parseDevice :: "env \<Rightarrow> string \<Rightarrow> DeviceInfo" where
  "parseDevice e ua =
     (let p = uaParser e ua
      in \<lparr>device_type = getDeviceType (ua_device_type p),
          browser = tmpl (ua_browser_name p) @ '' '' @ tmpl (ua_browser_version p),
          os = tmpl (ua_os_name p) @ '' '' @ tmpl (ua_os_version p)\<rparr>)"

definition detectAnomalies ::
  "env \<Rightarrow> rules \<Rightarrow> nat \<Rightarrow> LoginData \<Rightarrow> world \<Rightarrow> (error + RiskAssessment) \<times> world" where
  "detectAnomalies e rules userId loginData w =
     (case getLocationInfo e (ip_address loginData) (geo w) of
        (loc, g) \<Rightarrow>
          let w1 = w\<lparr>geo := g\<rparr>;
              dev = parseDevice e (user_agent loginData);
              acc0 = (0, []);
              geoAnomaly = checkGeographicAnomaly e rules userId loc w1;
              acc1 = add_check geoAnomaly acc0;
              ipReputationAnomaly = checkIPReputation rules loc;
              acc2 = add_check ipReputationAnomaly acc1;
              frequencyAnomaly = checkLoginFrequency e rules userId (ip_address loginData) w1;
              acc3 = add_check frequencyAnomaly acc2;
              deviceAnomaly = checkDeviceAnomaly e rules userId dev (ip_address loginData) w1;
              acc4 = add_check deviceAnomaly acc3;
              timeAnomaly = checkTimeAnomaly e rules userId (timezone loc) w1;
              acc5 = add_check timeAnomaly acc4;
              concurrentAnomaly = checkConcurrentSessions e userId w1;
              acc6 = add_check concurrentAnomaly acc5;
              score_sum = fst acc6;
              row = \<lparr>l_user_id = userId,
                     l_session_token_hash = session_token_hash loginData,
                     l_ip_address = ip_address loginData,
                     l_user_agent = user_agent loginData,
                     l_country = country loc, l_region = region loc, l_city = city loc,
                     l_latitude = latitude loc, l_longitude = longitude loc,
                     l_timezone = timezone loc,
                     l_device_type = device_type dev, l_browser = browser dev, l_os = os dev,
                     l_risk_score = score_sum, l_is_suspicious = (score_sum \<ge> 50),
                     l_login_time = now e, l_is_active = True\<rparr>
          in (case recordLoginLog e row w1 of
                Inl err \<Rightarrow> (Inl err, w1)
              | Inr w2 \<Rightarrow>
                  (Inr \<lparr>totalRiskScore = score_sum, isSuspicious = (score_sum \<ge> 50),
                        anomalies = snd acc6, locationInfo = loc, deviceInfo = dev\<rparr>, w2)))"

text \<open>The six check results of one login, in the order \<open>detectAnomalies\<close> runs them.\<close>

definition check_results :: "env \<Rightarrow> rules \<Rightarrow> nat \<Rightarrow> LoginData \<Rightarrow> world \<Rightarrow> CheckResult list" where
  "check_results e rules userId loginData w =
     (case getLocationInfo e (ip_address loginData) (geo w) of
        (loc, g) \<Rightarrow>
          let w1 = w\<lparr>geo := g\<rparr>;
              dev = parseDevice e (user_agent loginData)
          in [checkGeographicAnomaly e rules userId loc w1,
              checkIPReputation rules loc,
              checkLoginFrequency e rules userId (ip_address loginData) w1,
              checkDeviceAnomaly e rules userId dev (ip_address loginData) w1,
              checkTimeAnomaly e rules userId (timezone loc) w1,
              checkConcurrentSessions e userId w1])"


section \<open>SecurityNotificationService and the alert routes\<close>

record Administrator =
  adm_id :: nat
  adm_username :: string
  adm_email :: string

record UserInfo =
  u_id :: nat
  u_username :: string
  u_email :: string

text \<open>What \<open>createSecurityAlert\<close> is given, and an item of \<open>alertQueue\<close>.\<close>

record AlertData =
  userId :: nat
  alertType :: string
  severity :: string
  title :: string
  description :: string
  alert_data :: string

record QueuedAlert = AlertData +
  alertId :: nat

text \<open>A row of \<open>security_alerts\<close>; the row with id \<open>n\<close> is the \<open>n\<close>-th row inserted.\<close>

record SecurityAlert =
  sa_data :: AlertData
  is_resolved :: bool
  resolved_by :: "nat option"
  resolved_at :: "int option"
  resolution_notes :: "string option"

text \<open>
  The stored e-mail template after \<open>JSON.parse\<close>: \<open>null\<close>, or an object whose
  \<open>subject\<close> and \<open>body\<close> may be missing.
\<close>

datatype json_template = JNull | JObj "string option" "string option"

record EmailContent =
  subject :: string
  html :: string
  plain_text :: string

record Mail =
  mail_to :: string
  mail_content :: EmailContent

text \<open>A call of \<open>sendMail\<close>: when it was issued, for which alert, and whether it resolved.\<close>

record Sent =
  sent_at :: int
  sent_alert :: nat
  sent_mail :: Mail
  delivered :: bool

datatype ndbop = InsertAlert | SelectNotifySetting | SelectAdmins | SelectUser
  | SelectTemplate | SelectAlert | UpdateAlert

text \<open>
  What the service reads from outside: the transporter made at construction (\<open>None\<close>
  when \<open>this.emailTransporter\<close> is \<open>null\<close>; applied to a mail it tells whether
  \<open>sendMail\<close> resolves), the storage (the setting \<open>alert_administrators\<close>, the active
  administrators, the users, the stored template, which operations fail), the rendering of
  the subject and of the two bodies, how long a \<open>sendMail\<close> takes and how late the
  one-second timer fires (milliseconds).
\<close>

record nenv =
  emailTransporter :: "(Mail \<Rightarrow> bool) option"
  ndb_fails :: "ndbop \<Rightarrow> bool"
  alert_administrators :: "string option"
  active_admins :: "Administrator list"
  users :: "nat \<Rightarrow> UserInfo option"
  stored_template :: "json_template option"
  render_subject :: "string \<Rightarrow> QueuedAlert \<Rightarrow> UserInfo option \<Rightarrow> string"
  generateEmailHTML :: "string \<Rightarrow> QueuedAlert \<Rightarrow> UserInfo option \<Rightarrow> string"
  generateEmailText :: "QueuedAlert \<Rightarrow> UserInfo option \<Rightarrow> string"
  send_duration :: "Mail \<Rightarrow> nat"
  timer_lag :: nat

record nstate =
  alerts :: "SecurityAlert list"
  alertQueue :: "QueuedAlert list"
  isProcessing :: bool
  clock :: int
  outbox :: "Sent list"

text \<open>
  The module \<open>nodemailer\<close> as the constructor uses it: its property
  \<open>createTransporter\<close>, already applied to the SMTP settings; \<open>None\<close> when the module
  has no such property.
\<close>

record nodemailer_module =
  createTransporter :: "(Mail \<Rightarrow> bool) option"

text \<open>
  \<open>initializeEmailTransporter\<close>, called by the constructor on a service whose
  \<open>emailTransporter\<close> is \<open>null\<close>. Calling a property the module does not have throws
  a TypeError; the \<open>catch\<close> logs it and the field keeps its \<open>null\<close>.
\<close>

definition initializeEmailTransporter :: "nodemailer_module \<Rightarrow> (Mail \<Rightarrow> bool) option" where
  "initializeEmailTransporter lib =
     (case createTransporter lib of
        None \<Rightarrow> None
      | Some transporter \<Rightarrow> Some transporter)"

text \<open>The service as its constructor leaves it, in a given environment.\<close>

definition constructed :: "nodemailer_module \<Rightarrow> nenv \<Rightarrow> nenv" where
  "constructed lib e = e\<lparr>emailTransporter := initializeEmailTransporter lib\<rparr>"

text \<open>
  \<open>shouldSendNotification\<close>: \<open>severityThresholds[severity] || false\<close>, which is truthy
  for the three severities listed as \<open>true\<close> and for an inherited property name.
\<close>

definition shouldSendNotification :: "nenv \<Rightarrow> string \<Rightarrow> bool" where
  "shouldSendNotification e sev =
     (if ndb_fails e SelectNotifySetting then False
      else if alert_administrators e \<noteq> Some ''true'' then False
      else (sev = ''medium'' \<or> sev = ''high'' \<or> sev = ''critical'' \<or>
            sev \<in> set object_prototype_keys))"

definition getAdministrators :: "nenv \<Rightarrow> Administrator list" where
  "getAdministrators e = (if ndb_fails e SelectAdmins then [] else active_admins e)"

definition getUserInfo :: "nenv \<Rightarrow> nat \<Rightarrow> UserInfo option" where
  "getUserInfo e uid = (if ndb_fails e SelectUser then None else users e uid)"

definition default_template :: json_template where
  "default_template =
     JObj (Some ([CHR 0xE5, CHR 0xAE, CHR 0x89, CHR 0xE5, CHR 0x85, CHR 0xA8, CHR 0xE8, CHR 0xAD,
                  CHR 0xA6, CHR 0xE6, CHR 0x8A, CHR 0xA5, CHR 0xEF, CHR 0xBC, CHR 0x9A] @
                 ''{alert_type}''))
          (Some ([CHR 0xE6, CHR 0xA3, CHR 0x80, CHR 0xE6, CHR 0xB5, CHR 0x8B, CHR 0xE5, CHR 0x88,
                  CHR 0xB0, CHR 0xE7, CHR 0x94, CHR 0xA8, CHR 0xE6, CHR 0x88, CHR 0xB7] @
                 '' {username} '' @
                 [CHR 0xE7, CHR 0x9A, CHR 0x84, CHR 0xE5, CHR 0xBC, CHR 0x82, CHR 0xE5, CHR 0xB8,
                  CHR 0xB8, CHR 0xE7, CHR 0x99, CHR 0xBB, CHR 0xE5, CHR 0xBD, CHR 0x95, CHR 0xE8,
                  CHR 0xA1, CHR 0x8C, CHR 0xE4, CHR 0xB8, CHR 0xBA]))"

text \<open>
  \<open>getEmailTemplate\<close>: the stored template; the default one when the query fails, finds
  no row, or the text does not parse (\<open>stored_template = None\<close>).
\<close>

definition getEmailTemplate :: "nenv \<Rightarrow> json_template" where
  "getEmailTemplate e =
     (if ndb_fails e SelectTemplate then default_template
      else (case stored_template e of None \<Rightarrow> default_template | Some t \<Rightarrow> t))"

text \<open>
  \<open>prepareEmailContent\<close>: \<open>template.subject.replace\<close> and \<open>template.body.replace\<close>
  throw on a template without these strings.
\<close>

definition prepareEmailContent ::
  "nenv \<Rightarrow> json_template \<Rightarrow> QueuedAlert \<Rightarrow> UserInfo option \<Rightarrow> error + EmailContent" where
  "prepareEmailContent e template alert userInfo =
     (case template of
        JNull \<Rightarrow> Inl TypeError
      | JObj None b \<Rightarrow> Inl TypeError
      | JObj (Some sub) None \<Rightarrow> Inl TypeError
      | JObj (Some sub) (Some b) \<Rightarrow>
          let subj = render_subject e sub alert userInfo
          in Inr \<lparr>subject = subj, html = generateEmailHTML e subj alert userInfo,
                  plain_text = generateEmailText e alert userInfo\<rparr>)"

text \<open>
  The loop over the administrators: each \<open>sendMail\<close> is awaited inside its own
  \<open>try\<close>; a rejection is logged and the loop goes on.
\<close>

fun send_each ::
  "nenv \<Rightarrow> (Mail \<Rightarrow> bool) \<Rightarrow> QueuedAlert \<Rightarrow> EmailContent \<Rightarrow> Administrator list \<Rightarrow> nstate \<Rightarrow> nstate" where
  "send_each e transporter alert content [] st = st"
| "send_each e transporter alert content (admin # rest) st =
     (let mail = \<lparr>mail_to = adm_email admin, mail_content = content\<rparr>;
          call = \<lparr>sent_at = clock st, sent_alert = alertId alert, sent_mail = mail,
                  delivered = transporter mail\<rparr>
      in send_each e transporter alert content rest
           (st\<lparr>outbox := outbox st @ [call],
               clock := clock st + int (send_duration e mail)\<rparr>))"

definition sendEmailNotifications ::
  "nenv \<Rightarrow> Administrator list \<Rightarrow> QueuedAlert \<Rightarrow> UserInfo option \<Rightarrow> nstate \<Rightarrow> nstate" where
  "sendEmailNotifications e administrators alert userInfo st =
     (case emailTransporter e of
        None \<Rightarrow> st
      | Some transporter \<Rightarrow>
          (case prepareEmailContent e (getEmailTemplate e) alert userInfo of
             Inl err \<Rightarrow> st
           | Inr emailContent \<Rightarrow> send_each e transporter alert emailContent administrators st))"

definition sendNotifications :: "nenv \<Rightarrow> QueuedAlert \<Rightarrow> nstate \<Rightarrow> nstate" where
  "sendNotifications e alert st =
     (let administrators = getAdministrators e
      in if length administrators = 0 then st
         else sendEmailNotifications e administrators alert (getUserInfo e (userId alert)) st)"

text \<open>
  The \<open>while\<close> loop of \<open>processNotificationQueue\<close>: take the first item, send its
  notifications, wait for the one-second timer.
\<close>

fun drain_queue :: "nenv \<Rightarrow> QueuedAlert list \<Rightarrow> nstate \<Rightarrow> nstate" where
  "drain_queue e [] st = st"
| "drain_queue e (alert # rest) st =
     (let st1 = sendNotifications e alert (st\<lparr>alertQueue := rest\<rparr>)
      in drain_queue e rest (st1\<lparr>clock := clock st1 + 1000 + int (timer_lag e)\<rparr>))"

definition processNotificationQueue :: "nenv \<Rightarrow> nstate \<Rightarrow> nstate" where
  "processNotificationQueue e st =
     (if isProcessing st \<or> length (alertQueue st) = 0 then st
      else (drain_queue e (alertQueue st) (st\<lparr>isProcessing := True\<rparr>))\<lparr>isProcessing := False\<rparr>)"

text \<open>
  \<open>createSecurityAlert\<close>. The queue is processed without being awaited; here it has
  run to its end when the call returns.
\<close>

definition createSecurityAlert :: "nenv \<Rightarrow> AlertData \<Rightarrow> nstate \<Rightarrow> (error + nat) \<times> nstate" where
  "createSecurityAlert e a st =
     (if ndb_fails e InsertAlert then (Inl PersistenceFailure, st)
      else
        let row = \<lparr>sa_data = a, is_resolved = False, resolved_by = None, resolved_at = None,
                   resolution_notes = None\<rparr>;
            st1 = st\<lparr>alerts := alerts st @ [row]\<rparr>;
            insertId = length (alerts st1);
            shouldNotify = shouldSendNotification e (severity a)
        in if shouldNotify
           then (Inr insertId,
                 processNotificationQueue e
                   (st1\<lparr>alertQueue := alertQueue st1 @ [AlertData.extend a \<lparr>alertId = insertId\<rparr>]\<rparr>))
           else (Inr insertId, st1))"

text \<open>\<open>resolveAlert\<close>: the \<open>UPDATE ... WHERE id = ?\<close>; a failure is thrown again.\<close>

definition resolveAlert :: "nenv \<Rightarrow> nat \<Rightarrow> nat \<Rightarrow> string option \<Rightarrow> nstate \<Rightarrow> error + nstate" where
  "resolveAlert e aid resolvedBy resolutionNotes st =
     (if ndb_fails e UpdateAlert then Inl PersistenceFailure
      else if 1 \<le> aid \<and> aid \<le> length (alerts st)
      then Inr (st\<lparr>alerts := (alerts st)[aid - 1 :=
                    (alerts st ! (aid - 1))\<lparr>is_resolved := True, resolved_by := Some resolvedBy,
                       resolved_at := Some (clock st), resolution_notes := resolutionNotes\<rparr>]\<rparr>)
      else Inr st)"

datatype response = Ok200 | BadRequest400 | NotFound404 | ServerError500

text \<open>
  The validator's \<open>trim\<close> and \<open>isLength\<close>, for notes in ASCII: \<open>trim\<close> strips the
  ASCII white space at both ends, and the length is the number of characters. (On other
  text the library also strips the Unicode spaces and counts code points, not bytes.)
\<close>

definition is_space :: "char \<Rightarrow> bool" where
  "is_space c = (c \<in> set [CHR 0x20, CHR 0x09, CHR 0x0A, CHR 0x0B, CHR 0x0C, CHR 0x0D])"

definition trim :: "string \<Rightarrow> string" where
  "trim s = rev (dropWhile is_space (rev (dropWhile is_space s)))"

text \<open>
  \<open>PATCH /alerts/:id/resolve\<close>, for an authenticated administrator \<open>resolvedBy\<close>:
  validation (\<open>id\<close> an integer from 1, the trimmed notes of at most 1000 characters),
  then the handler.
\<close>

definition resolve_route ::
  "nenv \<Rightarrow> nat \<Rightarrow> nat \<Rightarrow> string option \<Rightarrow> nstate \<Rightarrow> response \<times> nstate" where
  "resolve_route e resolvedBy aid notes st =
     (let resolution_notes = map_option trim notes
      in if aid < 1 \<or> (case resolution_notes of None \<Rightarrow> False | Some n \<Rightarrow> length n > 1000)
         then (BadRequest400, st)
         else if ndb_fails e SelectAlert then (ServerError500, st)
         else if \<not> (1 \<le> aid \<and> aid \<le> length (alerts st)) then (NotFound404, st)
         else if is_resolved (alerts st ! (aid - 1)) then (BadRequest400, st)
         else (case resolveAlert e aid resolvedBy resolution_notes st of
                 Inl err \<Rightarrow> (ServerError500, st)
               | Inr st1 \<Rightarrow> (Ok200, st1)))"

text \<open>
  The operations of the repository that write to \<open>security_alerts\<close>, and the passing of
  time; each runs in an environment of its own.
\<close>

datatype alert_op = OpCreate AlertData | OpResolve nat nat "string option" | OpTick nat

fun apply_op :: "nenv \<times> alert_op \<Rightarrow> nstate \<Rightarrow> nstate" where
  "apply_op (e, OpCreate a) st = snd (createSecurityAlert e a st)"
| "apply_op (e, OpResolve resolvedBy aid notes) st = snd (resolve_route e resolvedBy aid notes st)"
| "apply_op (e, OpTick ms) st = st\<lparr>clock := clock st + int ms\<rparr>"


section \<open>Notions used in the statements and proofs\<close>

subsection \<open>What a regular expression can consume\<close>

fun nullable :: "rx \<Rightarrow> bool" where
  "nullable Eps = True"
| "nullable (Cls cs) = False"
| "nullable (Seq a b) = (nullable a \<and> nullable b)"
| "nullable (Alt a b) = (nullable a \<or> nullable b)"
| "nullable (Opt a) = True"

fun alphabet :: "rx \<Rightarrow> char set" where
  "alphabet Eps = {}"
| "alphabet (Cls cs) = set cs"
| "alphabet (Seq a b) = alphabet a \<union> alphabet b"
| "alphabet (Alt a b) = alphabet a \<union> alphabet b"
| "alphabet (Opt a) = alphabet a"

text \<open>The string has two adjacent colons.\<close>

fun has_dcolon :: "string \<Rightarrow> bool" where
  "has_dcolon (a # b # s) = ((a = CHR '':'' \<and> b = CHR '':'') \<or> has_dcolon (b # s))"
| "has_dcolon s = False"

definition starts_plain :: "string \<Rightarrow> bool" where
  "starts_plain s =
     (\<not> has_dcolon s \<and> (case s of [] \<Rightarrow> False | c # cs \<Rightarrow> c \<noteq> CHR '':''))"

subsection \<open>Example environments and states\<close>

definition data0 :: api_data where
  "data0 = \<lparr>d_status = Some ''success'', d_country = Some ''Testland'',
            d_regionName = Some ''North'', d_region = None, d_city = Some ''Testville'',
            d_lat = Some 10, d_lon = Some 20, d_timezone = Some ''UTC'',
            d_isp = Some ''TestNet'', d_org = None, d_proxy = Some False, d_loc = None\<rparr>"

definition ua0 :: ua_result where
  "ua0 = \<lparr>ua_device_type = None, ua_browser_name = Some ''Firefox'',
          ua_browser_version = Some ''120'', ua_os_name = Some ''Linux'',
          ua_os_version = None\<rparr>"

definition env0 :: env where
  "env0 = \<lparr>now = 1700000000000, currentProvider = ''ipapi'',
           axios_get = (\<lambda>ip. HttpOk (Some data0)), db_fails = (\<lambda>op. False),
           parseFloat = (\<lambda>x. None), parseInt = (\<lambda>x. if x = ''5'' then Some 5 else None),
           uaParser = (\<lambda>x. ua0), sha256_hex = (\<lambda>x. x),
           sqlHour = (\<lambda>t. (t div 3600000) mod 24),
           hourInTimezone = (\<lambda>z t. Some ((t div 3600000) mod 24))\<rparr>"

definition geo0 :: geo_state where
  "geo0 = \<lparr>geo_cache = [], rateLimitCounter = [], events = []\<rparr>"

definition loc0 :: LocationInfo where
  "loc0 = \<lparr>country = Some ''Testland'', region = Some ''North'', city = Some ''Testville'',
           latitude = Some 10, longitude = Some 20, timezone = Some ''UTC'',
           isp = Some ''TestNet'', is_proxy = False, is_vpn = False, is_tor = False,
           threat_level = ''low'', last_updated = Some (1700000000000 - 3600000)\<rparr>"

definition geo1 :: geo_state where
  "geo1 = \<lparr>geo_cache = [(''8.8.8.8'', loc0)], rateLimitCounter = [], events = []\<rparr>"


text \<open>The provider answers with status \<open>fail\<close>, as for an address it has no data on.\<close>

definition env_status_fail :: env where
  "env_status_fail =
     env0\<lparr>axios_get := (\<lambda>ip. HttpOk (Some (data0\<lparr>d_status := Some ''fail''\<rparr>)))\<rparr>"

definition cond0 :: RuleConditions where
  "cond0 = \<lparr>max_distance_km = Some 500, time_window_hours = Some 6,
            time_window_minutes = Some 30, max_attempts = Some 2,
            normal_hours = Some [8, 9, 10]\<rparr>"

text \<open>
  A registry with the frequency rule (score \<open>n\<close>, two attempts in 30 minutes), the
  new-device rule (score 25) and the IP rule (score 30); no geographic and no time rule.
\<close>

definition rules_scored :: "int \<Rightarrow> rules" where
  "rules_scored n name =
     (if name = rule_frequency
      then Some \<lparr>rule_type = ''frequency'', rule_description = [], rule_riskScore = n,
                 conditions = cond0\<rparr>
      else if name = rule_new_device
      then Some \<lparr>rule_type = ''device'', rule_description = [], rule_riskScore = 25,
                 conditions = cond0\<rparr>
      else if name = rule_suspicious_ip
      then Some \<lparr>rule_type = ''ip_reputation'', rule_description = [], rule_riskScore = 30,
                 conditions = cond0\<rparr>
      else None)"

definition login0 :: LoginData where
  "login0 = \<lparr>ip_address = ''10.0.0.1'', user_agent = ''Mozilla'',
              session_token_hash = ''h1''\<rparr>"

definition row0 :: LoginLog where
  "row0 = \<lparr>l_user_id = 7, l_session_token_hash = ''h0'', l_ip_address = ''10.0.0.1'',
           l_user_agent = ''Mozilla'', l_country = None, l_region = None, l_city = None,
           l_latitude = None, l_longitude = None, l_timezone = None,
           l_device_type = ''desktop'', l_browser = ''b'', l_os = ''o'', l_risk_score = 0,
           l_is_suspicious = False, l_login_time = 1700000000000 - 60000,
           l_is_active = False\<rparr>"

definition world0 :: world where
  "world0 = \<lparr>geo = geo0, login_logs = [row0, row0], trusted_devices = [(7, ''other'')],
             settings = [(''max_concurrent_sessions'', ''5'')]\<rparr>"

text \<open>
  The same storage with the threshold of the security settings at 70, the value the
  settings are reset to.
\<close>

definition world_threshold70 :: world where
  "world_threshold70 =
     world0\<lparr>settings := [(''max_concurrent_sessions'', ''5''),
                          (''high_risk_threshold'', ''70'')]\<rparr>"

definition env_insert_fails :: env where
  "env_insert_fails = env0\<lparr>db_fails := (\<lambda>op. op = InsertLoginLog)\<rparr>"

definition loc_risky :: LocationInfo where
  "loc_risky = loc0\<lparr>is_proxy := True, is_tor := True, threat_level := ''high''\<rparr>"

definition admins3 :: "Administrator list" where
  "admins3 = [\<lparr>adm_id = 1, adm_username = ''a'', adm_email = ''a@example.com''\<rparr>,
              \<lparr>adm_id = 2, adm_username = ''b'', adm_email = ''b@example.com''\<rparr>,
              \<lparr>adm_id = 3, adm_username = ''c'', adm_email = ''c@example.com''\<rparr>]"

text \<open>An environment whose transporter rejects every mail to the second administrator.\<close>

definition nenv0 :: nenv where
  "nenv0 = \<lparr>emailTransporter = Some (\<lambda>m. mail_to m \<noteq> ''b@example.com''),
            ndb_fails = (\<lambda>op. False), alert_administrators = Some ''true'',
            active_admins = admins3, users = (\<lambda>u. None), stored_template = None,
            render_subject = (\<lambda>s a u. s), generateEmailHTML = (\<lambda>s a u. s),
            generateEmailText = (\<lambda>a u. []), send_duration = (\<lambda>m. 20), timer_lag = 5\<rparr>"

text \<open>
  The library as published: its factory is \<open>createTransport\<close>, and it has no property
  \<open>createTransporter\<close>.
\<close>

definition nodemailer :: nodemailer_module where
  "nodemailer = \<lparr>createTransporter = None\<rparr>"

definition alert1 :: QueuedAlert where
  "alert1 = \<lparr>userId = 7, alertType = ''login_anomaly'', severity = ''high'', title = ''t'',
             description = ''d'', alert_data = ''{}'', alertId = 11\<rparr>"

definition alert2 :: QueuedAlert where
  "alert2 = \<lparr>userId = 8, alertType = ''login_anomaly'', severity = ''critical'',
             title = ''t'', description = ''d'', alert_data = ''{}'', alertId = 12\<rparr>"

definition nstate0 :: nstate where
  "nstate0 = \<lparr>alerts = [], alertQueue = [alert1, alert2], isProcessing = False, clock = 0,
              outbox = []\<rparr>"

definition open_alert :: SecurityAlert where
  "open_alert = \<lparr>sa_data = \<lparr>userId = 7, alertType = ''login_anomaly'', severity = ''high'',
                  title = ''t'', description = ''d'', alert_data = ''{}''\<rparr>,
                 is_resolved = False, resolved_by = None, resolved_at = None,
                 resolution_notes = None\<rparr>"

definition nstate1 :: nstate where
  "nstate1 = \<lparr>alerts = [open_alert], alertQueue = [], isProcessing = False, clock = 500,
              outbox = []\<rparr>"

subsection \<open>The send calls of a queue run\<close>

text \<open>Which alert a send call is for, and to whom.\<close>

definition call_key :: "Sent \<Rightarrow> nat \<times> string" where
  "call_key s = (sent_alert s, mail_to (sent_mail s))"

text \<open>
  One call per queued alert and active administrator: the alerts in queue order, and for
  each alert the administrators in the order the query lists them.
\<close>

definition expected_calls :: "nenv \<Rightarrow> QueuedAlert list \<Rightarrow> (nat \<times> string) list" where
  "expected_calls e q =
     concat (map (\<lambda>a. map (\<lambda>adm. (alertId a, adm_email adm)) (active_admins e)) q)"

text \<open>
  Two calls are at least one second apart if they are for different alerts. Nothing is
  said of two calls for the same alert: the loop over the administrators has no timer.
\<close>

definition spaced_across_alerts :: "Sent \<Rightarrow> Sent \<Rightarrow> bool" where
  "spaced_across_alerts x y =
     (sent_alert x \<noteq> sent_alert y \<longrightarrow> sent_at x + 1000 \<le> sent_at y)"

text \<open>The send calls a run of \<open>processNotificationQueue\<close> adds to the log.\<close>

definition new_calls :: "nenv \<Rightarrow> nstate \<Rightarrow> Sent list" where
  "new_calls e st = drop (length (outbox st)) (outbox (processNotificationQueue e st))"

section \<open>Properties of the geolocation service\<close>

subsection \<open>What the validity pattern rejects\<close>

lemma remainders_consumed:
  "r' \<in> set (remainders r s) \<Longrightarrow>
     \<exists>w. s = w @ r' \<and> set w \<subseteq> alphabet r \<and> (\<not> nullable r \<longrightarrow> w \<noteq> [])"
proof (induction r arbitrary: s r')
  case Eps
  then show ?case by simp
next
  case (Cls cs)
  then show ?case by (cases s) (auto split: if_splits)
next
  case (Seq a b)
  from Seq.prems obtain m
    where m: "m \<in> set (remainders a s)" and r: "r' \<in> set (remainders b m)"
    by auto
  from Seq.IH(1)[OF m] obtain w1
    where w1: "s = w1 @ m" "set w1 \<subseteq> alphabet a" "\<not> nullable a \<longrightarrow> w1 \<noteq> []"
    by blast
  from Seq.IH(2)[OF r] obtain w2
    where w2: "m = w2 @ r'" "set w2 \<subseteq> alphabet b" "\<not> nullable b \<longrightarrow> w2 \<noteq> []"
    by blast
  show ?case
    by (rule exI[of _ "w1 @ w2"]) (use w1 w2 in auto)
next
  case (Alt a b)
  then show ?case by fastforce
next
  case (Opt a)
  then show ?case by fastforce
qed

lemma has_dcolon_infix: "has_dcolon (xs @ ''::'' @ ys)"
  by (induction xs rule: has_dcolon.induct) auto

lemma has_dcolon_colon: "has_dcolon s \<Longrightarrow> CHR '':'' \<in> set s"
  by (induction s rule: has_dcolon.induct) auto

lemma starts_plain_word: "w \<noteq> [] \<Longrightarrow> CHR '':'' \<notin> set w \<Longrightarrow> starts_plain w"
  using has_dcolon_colon[of w] by (cases w) (auto simp: starts_plain_def)

lemma starts_plain_group:
  "w \<noteq> [] \<Longrightarrow> CHR '':'' \<notin> set w \<Longrightarrow> starts_plain r' \<Longrightarrow>
     starts_plain (w @ CHR '':'' # r')"
proof (induction w)
  case Nil
  then show ?case by simp
next
  case (Cons a w)
  show ?case
  proof (cases w)
    case Nil
    with Cons.prems show ?thesis by (cases r') (auto simp: starts_plain_def)
  next
    case (Cons b w')
    with Cons.IH Cons.prems show ?thesis by (auto simp: starts_plain_def)
  qed
qed

lemma hexgroup_consumed:
  assumes "r' \<in> set (remainders hexgroup s)"
  shows "\<exists>w. s = w @ r' \<and> w \<noteq> [] \<and> CHR '':'' \<notin> set w"
proof -
  have a: "alphabet hexgroup = set hexdigit" and n: "\<not> nullable hexgroup"
    by (simp_all add: hexgroup_def rx_rep_def eval_nat_numeral)
  from remainders_consumed[OF assms] a n
  obtain w where "s = w @ r'" "set w \<subseteq> set hexdigit" "w \<noteq> []" by auto
  moreover have "CHR '':'' \<notin> set hexdigit" by (simp add: hexdigit_def)
  ultimately show ?thesis by blast
qed

lemma groups_plain:
  "r' \<in> set (remainders (rx_times n (Seq hexgroup (rx_lit '':''))) s) \<Longrightarrow>
     starts_plain r' \<Longrightarrow> starts_plain s"
proof (induction n arbitrary: s)
  case 0
  then show ?case by simp
next
  case (Suc n)
  from Suc.prems(1) obtain m1 m2
    where m1: "m1 \<in> set (remainders hexgroup s)"
      and m2: "m2 \<in> set (remainders (rx_lit '':'') m1)"
      and r: "r' \<in> set (remainders (rx_times n (Seq hexgroup (rx_lit '':''))) m2)"
    by auto
  from m2 have "m1 = CHR '':'' # m2" by (cases m1) (auto split: if_splits)
  moreover from hexgroup_consumed[OF m1]
  obtain w where "s = w @ m1" "w \<noteq> []" "CHR '':'' \<notin> set w"
    by blast
  moreover have "starts_plain m2" using Suc.IH[OF r Suc.prems(2)] .
  ultimately show ?case using starts_plain_group by simp
qed

lemma ipv6Regex_no_dcolon:
  assumes "test_anchored ipv6Regex s"
  shows "\<not> has_dcolon s"
proof -
  from assms obtain m
    where m: "m \<in> set (remainders (rx_times 7 (Seq hexgroup (rx_lit '':''))) s)"
      and e: "[] \<in> set (remainders hexgroup m)"
    by (auto simp: test_anchored_def ipv6Regex_def)
  from hexgroup_consumed[OF e] have "starts_plain m" using starts_plain_word by auto
  with groups_plain[OF m] show ?thesis by (simp add: starts_plain_def)
qed

lemma ipv4Regex_no_colon:
  assumes "test_anchored ipv4Regex s"
  shows "CHR '':'' \<notin> set s"
proof -
  from assms have "[] \<in> set (remainders ipv4Regex s)" by (simp add: test_anchored_def)
  from remainders_consumed[OF this] have "set s \<subseteq> alphabet ipv4Regex" by auto
  moreover have "CHR '':'' \<notin> alphabet ipv4Regex"
    by (simp add: ipv4Regex_def octet_def digit_def eval_nat_numeral)
  ultimately show ?thesis by blast
qed

lemma compressed_invalid: "\<not> isValidIP (xs @ ''::'' @ ys)"
  using ipv6Regex_no_dcolon[of "xs @ ''::'' @ ys"] ipv4Regex_no_colon[of "xs @ ''::'' @ ys"]
    has_dcolon_infix[of xs ys] has_dcolon_colon[of "xs @ ''::'' @ ys"]
  by (auto simp: isValidIP_def)

subsection \<open>The gate, the cache and the upstream call\<close>

lemma gate_default:
  "\<not> isValidIP ip \<or> isPrivateIP ip \<Longrightarrow> getLocationInfo e ip s = (getDefaultLocationInfo, s)"
  by (auto simp: getLocationInfo_def)

lemma list_all_update:
  "list_all P al \<Longrightarrow> P (k, v) \<Longrightarrow> list_all P (AList.update k v al)"
  by (induction al) auto

lemma checkRateLimit_cache: "geo_cache (snd (checkRateLimit e s)) = geo_cache s"
  by (simp add: checkRateLimit_def Let_def split: option.splits)

lemma checkRateLimit_events: "events (snd (checkRateLimit e s)) = events s"
  by (simp add: checkRateLimit_def Let_def split: option.splits)

lemma fetchFromAPI_cache: "geo_cache (snd (fetchFromAPI e ip s)) = geo_cache s"
  using checkRateLimit_cache[of e s]
  by (auto simp: fetchFromAPI_def Let_def
      split: option.splits prod.splits bool.splits http_result.splits)

text \<open>
  The service writes cache entries only for addresses that passed the gate, so
  \<open>cache_wf\<close> holds of every state it reaches from an empty cache.
\<close>

lemma cache_wf_getLocationInfo:
  assumes wf: "cache_wf s"
  shows "cache_wf (snd (getLocationInfo e ip s))"
proof (cases "\<not> isValidIP ip \<or> isPrivateIP ip")
  case True
  with wf show ?thesis by (simp add: gate_default)
next
  case False
  let ?s1 = "s\<lparr>events := events s @ [CacheRead ip]\<rparr>"
  have c: "geo_cache (snd (fetchFromAPI e ip ?s1)) = geo_cache s"
    by (simp add: fetchFromAPI_cache)
  show ?thesis using False wf c
    by (auto simp: getLocationInfo_def getCachedLocation_def saveCachedLocation_def
        cache_wf_def Let_def list_all_update split: option.splits prod.splits sum.splits)
qed

lemma cache_wf_empty: "cache_wf geo0"
  by (simp add: cache_wf_def geo0_def)

lemma cache_hit:
  assumes "cache_wf s" "\<not> db_fails e SelectGeoCache" "map_of (geo_cache s) ip = Some c"
    "last_updated c = Some t" "now e - t < 24 * 60 * 60 * 1000"
  shows "getLocationInfo e ip s = (c, s\<lparr>events := events s @ [CacheRead ip]\<rparr>)"
proof -
  from assms(3) have "(ip, c) \<in> set (geo_cache s)" by (rule map_of_SomeD)
  with assms(1) have "isValidIP ip \<and> \<not> isPrivateIP ip"
    by (auto simp: cache_wf_def list_all_iff)
  then show ?thesis using assms
    by (simp add: getLocationInfo_def getCachedLocation_def isCacheValid_def Let_def)
qed

lemma upstream_only_on_miss:
  assumes "\<not> db_fails e SelectGeoCache" "UpstreamCall ip' \<in> set (issued e ip s)"
  shows "map_of (geo_cache s) ip = None \<or>
         (\<exists>c. map_of (geo_cache s) ip = Some c \<and>
              (\<forall>t. last_updated c = Some t \<longrightarrow> now e - t \<ge> 24 * 60 * 60 * 1000))"
proof (cases "map_of (geo_cache s) ip")
  case None
  then show ?thesis by simp
next
  case (Some c)
  show ?thesis
  proof (cases "isCacheValid e c")
    case False
    then show ?thesis using Some
      by (auto simp: isCacheValid_def Let_def split: option.splits)
  next
    case True
    then have "issued e ip s = [] \<or> issued e ip s = [CacheRead ip]"
      using Some assms(1)
      by (auto simp: issued_def getLocationInfo_def getCachedLocation_def Let_def)
    with assms(2) show ?thesis by auto
  qed
qed

lemma unique_local_passes_gate:
  "isValidIP ''fd12:3456:789a:1:2:3:4:5''" "\<not> isPrivateIP ''fd12:3456:789a:1:2:3:4:5''"
  by code_simp+

text \<open>
  Past the gate and without a usable cache entry, every way the fetch can fail (no such
  provider, the request budget used up, the request failing, a \<open>null\<close> body) ends in
  the default location.
\<close>

lemma fetch_error_default:
  assumes "isValidIP ip" "\<not> isPrivateIP ip"
    "map_of (geo_cache s) ip = None \<or> db_fails e SelectGeoCache"
    "fst (fetchFromAPI e ip (s\<lparr>events := events s @ [CacheRead ip]\<rparr>)) = Inl err"
  shows "fst (getLocationInfo e ip s) = getDefaultLocationInfo"
  using assms
  by (auto simp: getLocationInfo_def getCachedLocation_def Let_def
      split: prod.splits sum.splits)

lemma upstream_failure_is_error:
  "axios_get e ip = HttpError \<Longrightarrow> \<exists>err. fst (fetchFromAPI e ip s) = Inl err"
  by (auto simp: fetchFromAPI_def Let_def split: option.splits prod.splits bool.splits)

lemma rate_limit_is_error:
  "fst (checkRateLimit e s) = False \<Longrightarrow> \<exists>err. fst (fetchFromAPI e ip s) = Inl err"
  by (auto simp: fetchFromAPI_def Let_def split: option.splits prod.splits bool.splits)

text \<open>
  C10. An address written with \<open>::\<close> never matches the validity pattern (which wants
  eight groups of one to four hexadecimal digits, or a dotted quad), so
  \<open>getLocationInfo\<close> answers it with the default location and leaves the state as it
  was: no cache lookup, no upstream call, no cache write.
\<close>

theorem compressed_ipv6_default:
  "getLocationInfo e (xs @ ''::'' @ ys) s = (getDefaultLocationInfo, s)"
  using compressed_invalid[of xs ys] by (simp add: gate_default)

theorem compressed_ipv6_default_witness:
  "getLocationInfo env0 ''2001:db8::1'' geo1 = (getDefaultLocationInfo, geo1)"
  using compressed_ipv6_default[of env0 "''2001:db8''" "''1''" geo1] by simp

text \<open>
  C7. In a state whose cache holds only addresses that pass the gate (the states the
  service itself produces) and with the cache readable: an address whose entry is younger
  than 24 hours is answered with exactly that entry, and the only operation issued is the
  cache read. And whenever a call issues an upstream request, the address had no cache
  entry or one that is not younger than 24 hours.
\<close>

theorem cached_entry_returned:
  "(cache_wf s \<and> \<not> db_fails e SelectGeoCache \<and> map_of (geo_cache s) ip = Some c \<and>
      last_updated c = Some t \<and> now e - t < 24 * 60 * 60 * 1000
      \<longrightarrow> getLocationInfo e ip s = (c, s\<lparr>events := events s @ [CacheRead ip]\<rparr>)) \<and>
   (\<not> db_fails e SelectGeoCache \<and> UpstreamCall ip' \<in> set (issued e ip s)
      \<longrightarrow> map_of (geo_cache s) ip = None \<or>
          (\<exists>c. map_of (geo_cache s) ip = Some c \<and>
               (\<forall>t. last_updated c = Some t \<longrightarrow> now e - t \<ge> 24 * 60 * 60 * 1000)))"
  using cache_hit[of s e ip c t] upstream_only_on_miss[of e ip' ip s] by blast

theorem cached_entry_returned_witness:
  "getLocationInfo env0 ''8.8.8.8'' geo1 = (loc0, geo1\<lparr>events := [CacheRead ''8.8.8.8'']\<rparr>) \<and>
   UpstreamCall ''8.8.4.4'' \<in> set (issued env0 ''8.8.4.4'' geo1) \<and>
   map_of (geo_cache geo1) ''8.8.4.4'' = None"
proof -
  have wf: "cache_wf geo1" by code_simp
  have v: "isValidIP ''8.8.4.4''" "\<not> isPrivateIP ''8.8.4.4''" by code_simp+
  have up: "UpstreamCall ''8.8.4.4'' \<in> set (issued env0 ''8.8.4.4'' geo1)"
    using v
    by (simp add: issued_def getLocationInfo_def getCachedLocation_def fetchFromAPI_def
        checkRateLimit_def providers_def normalizeResponse_def saveCachedLocation_def
        env0_def geo1_def data0_def Let_def)
  have hit: "getLocationInfo env0 ''8.8.8.8'' geo1 = (loc0, geo1\<lparr>events := [CacheRead ''8.8.8.8'']\<rparr>)"
    using cached_entry_returned[of geo1 env0 "''8.8.8.8''" loc0 "1700000000000 - 3600000"] wf
    by (simp add: geo1_def env0_def loc0_def)
  have miss: "map_of (geo_cache geo1) ''8.8.4.4'' = None"
    using cached_entry_returned[of geo1 env0 "''8.8.4.4''" loc0 0 "''8.8.4.4''"] up
    by (simp add: geo1_def env0_def)
  from hit up miss show ?thesis by simp
qed

text \<open>
  C3, at an address of \<open>fc00::/7\<close>. \<open>fd12:3456:789a:1:2:3:4:5\<close> is a unique local
  address with no zero group, so eight groups is its only spelling. It passes the
  validity pattern and none of the private patterns (\<open>/^fc00:/\<close> matches the literal
  prefix only), so the service reads the cache, calls the provider, and returns and
  caches what it makes of the provider's answer: the provider's location when the answer
  has status \<open>success\<close>, a location without country (not the default's
  \<open>Unknown\<close>) when it has not.
\<close>

theorem unique_local_goes_upstream:
  "fst (getLocationInfo env0 ''fd12:3456:789a:1:2:3:4:5'' geo0) = loc0\<lparr>last_updated := None\<rparr> \<and>
   fst (getLocationInfo env0 ''fd12:3456:789a:1:2:3:4:5'' geo0) \<noteq> getDefaultLocationInfo \<and>
   events (snd (getLocationInfo env0 ''fd12:3456:789a:1:2:3:4:5'' geo0)) =
     [CacheRead ''fd12:3456:789a:1:2:3:4:5'', UpstreamCall ''fd12:3456:789a:1:2:3:4:5'',
      CacheWrite ''fd12:3456:789a:1:2:3:4:5''] \<and>
   country (fst (getLocationInfo env_status_fail ''fd12:3456:789a:1:2:3:4:5'' geo0)) = None \<and>
   events (snd (getLocationInfo env_status_fail ''fd12:3456:789a:1:2:3:4:5'' geo0)) =
     [CacheRead ''fd12:3456:789a:1:2:3:4:5'', UpstreamCall ''fd12:3456:789a:1:2:3:4:5'',
      CacheWrite ''fd12:3456:789a:1:2:3:4:5'']"
  using unique_local_passes_gate
  by (simp add: getLocationInfo_def getCachedLocation_def fetchFromAPI_def checkRateLimit_def
      providers_def normalizeResponse_def saveCachedLocation_def env0_def geo0_def data0_def
      loc0_def getDefaultLocationInfo_def env_status_fail_def Let_def)

theorem unique_local_goes_upstream_witness:
  "UpstreamCall ''fd12:3456:789a:1:2:3:4:5'' \<in>
     set (events (snd (getLocationInfo env0 ''fd12:3456:789a:1:2:3:4:5'' geo0)))"
  using unique_local_goes_upstream by simp


section \<open>Properties of the anomaly detector\<close>

lemma rule_names_distinct:
  "rule_frequency \<noteq> rule_new_device" "rule_frequency \<noteq> rule_suspicious_ip"
  "rule_frequency \<noteq> rule_time" "rule_frequency \<noteq> rule_geographic"
  "rule_new_device \<noteq> rule_suspicious_ip" "rule_new_device \<noteq> rule_time"
  "rule_new_device \<noteq> rule_geographic" "rule_suspicious_ip \<noteq> rule_time"
  "rule_suspicious_ip \<noteq> rule_geographic" "rule_time \<noteq> rule_geographic"
  by (simp_all add: rule_frequency_def rule_new_device_def rule_suspicious_ip_def
      rule_time_def rule_geographic_def)

lemma add_check_eq:
  "add_check c (t, as) =
     (t + (if isAnomalous c then riskScore c else 0), as @ filter isAnomalous [c])"
  by (simp add: add_check_def)

lemma detect_returns:
  "\<not> db_fails e InsertLoginLog \<Longrightarrow>
     \<exists>r w'. detectAnomalies e rules uid ld w = (Inr r, w')"
  by (simp add: detectAnomalies_def recordLoginLog_def Let_def split: prod.splits)

lemma detect_throws:
  "db_fails e InsertLoginLog \<Longrightarrow>
     fst (detectAnomalies e rules uid ld w) = Inl PersistenceFailure \<and>
     login_logs (snd (detectAnomalies e rules uid ld w)) = login_logs w"
  by (simp add: detectAnomalies_def recordLoginLog_def Let_def split: prod.splits)

lemma private10: "isValidIP ''10.0.0.1''" "isPrivateIP ''10.0.0.1''"
  by code_simp+

text \<open>
  The six checks on the example login: two earlier attempts from the same address within
  the window trigger the frequency rule, and a device unknown to a user who has a trusted
  device triggers the new-device rule.
\<close>

lemma checks_example:
  "check_results env0 (rules_scored n) 7 login0 world0 =
     [notAnomalous, notAnomalous,
      \<lparr>isAnomalous = True, riskScore = n, atype = ''login_frequency'',
        details = FreqDetails 2 (Some 30) ''10.0.0.1''\<rparr>,
      \<lparr>isAnomalous = True, riskScore = 25, atype = ''new_device'',
        details = DeviceDetails ''desktop-Firefox 120-Linux undefined-10.0.0.1''
           \<lparr>device_type = ''desktop'', browser = ''Firefox 120'',
             os = ''Linux undefined''\<rparr>\<rparr>,
      notAnomalous, notAnomalous]"
  using private10 rule_names_distinct
  by (simp add: check_results_def gate_default login0_def world0_def
      checkGeographicAnomaly_def getDefaultLocationInfo_def falsy_def
      checkIPReputation_def rules_scored_def
      checkLoginFrequency_def cond0_def env0_def row0_def js_ge_def
      checkDeviceAnomaly_def generateDeviceFingerprint_def parseDevice_def ua0_def
      getDeviceType_def tmpl_def checkTimeAnomaly_def getCurrentHourInTimezone_def
      checkConcurrentSessions_def notAnomalous_def Let_def)

text \<open>
  The aggregation. When \<open>detectAnomalies\<close> returns an assessment, its anomalies are the
  triggered ones of the six checks, in order; its total is the plain sum of their scores
  (the only cap is the one inside the IP-reputation check); and \<open>isSuspicious\<close> holds
  exactly when the total is at least 50, the number written in the function.
\<close>

lemma total_is_sum_of_triggered:
  assumes "detectAnomalies e rules uid ld w = (Inr r, w')"
  shows "anomalies r = filter isAnomalous (check_results e rules uid ld w) \<and>
         totalRiskScore r =
           sum_list (map riskScore (filter isAnomalous (check_results e rules uid ld w))) \<and>
         (isSuspicious r \<longleftrightarrow> totalRiskScore r \<ge> 50)"
proof -
  obtain loc g where lg: "getLocationInfo e (ip_address ld) (geo w) = (loc, g)"
    by (cases "getLocationInfo e (ip_address ld) (geo w)")
  show ?thesis using assms lg
    by (auto simp: detectAnomalies_def check_results_def add_check_eq Let_def
        split: sum.splits)
qed

lemma total_is_sum_of_triggered_example:
  "(\<exists>r w'. detectAnomalies env0 (rules_scored 25) 7 login0 world0 = (Inr r, w') \<and>
      totalRiskScore r = 50 \<and> isSuspicious r) \<and>
   (\<exists>r w'. detectAnomalies env0 (rules_scored 24) 7 login0 world0 = (Inr r, w') \<and>
      totalRiskScore r = 49 \<and> \<not> isSuspicious r)"
proof -
  have ok: "\<not> db_fails env0 InsertLoginLog" by (simp add: env0_def)
  obtain r1 w1
    where d1: "detectAnomalies env0 (rules_scored 25) 7 login0 world0 = (Inr r1, w1)"
    using detect_returns[OF ok] by blast
  obtain r2 w2
    where d2: "detectAnomalies env0 (rules_scored 24) 7 login0 world0 = (Inr r2, w2)"
    using detect_returns[OF ok] by blast
  have "totalRiskScore r1 = 50 \<and> isSuspicious r1"
    using total_is_sum_of_triggered[OF d1] by (simp add: checks_example notAnomalous_def)
  moreover have "totalRiskScore r2 = 49 \<and> \<not> isSuspicious r2"
    using total_is_sum_of_triggered[OF d2] by (simp add: checks_example notAnomalous_def)
  ultimately show ?thesis using d1 d2 by blast
qed

lemma checks_example_threshold70:
  "check_results env0 (rules_scored n) 7 login0 world_threshold70 =
     check_results env0 (rules_scored n) 7 login0 world0"
  using private10 rule_names_distinct
  by (simp add: check_results_def gate_default login0_def world0_def world_threshold70_def
      checkGeographicAnomaly_def getDefaultLocationInfo_def falsy_def
      checkIPReputation_def rules_scored_def
      checkLoginFrequency_def cond0_def env0_def row0_def js_ge_def
      checkDeviceAnomaly_def generateDeviceFingerprint_def parseDevice_def ua0_def
      getDeviceType_def tmpl_def checkTimeAnomaly_def getCurrentHourInTimezone_def
      checkConcurrentSessions_def notAnomalous_def Let_def)

text \<open>
  C1, with a threshold configured. The security settings hold
  \<open>high_risk_threshold = 70\<close>, which the administration page describes as the score
  above which the security alert is triggered. A login whose triggered checks add up to
  35 + 25 = 60 is nevertheless assessed as suspicious: \<open>detectAnomalies\<close> compares with
  the number 50 and reads no setting.
\<close>

theorem threshold_setting_ignored:
  "map_of (settings world_threshold70) ''high_risk_threshold'' = Some ''70'' \<and>
   (\<exists>r w'. detectAnomalies env0 (rules_scored 35) 7 login0 world_threshold70 = (Inr r, w') \<and>
      totalRiskScore r = 60 \<and> isSuspicious r)"
proof -
  have ok: "\<not> db_fails env0 InsertLoginLog" by (simp add: env0_def)
  obtain r w'
    where d: "detectAnomalies env0 (rules_scored 35) 7 login0 world_threshold70 = (Inr r, w')"
    using detect_returns[OF ok] by blast
  have "totalRiskScore r = 60 \<and> isSuspicious r"
    using total_is_sum_of_triggered[OF d]
    by (simp add: checks_example_threshold70 checks_example notAnomalous_def)
  moreover have "map_of (settings world_threshold70) ''high_risk_threshold'' = Some ''70''"
    by (simp add: world_threshold70_def)
  ultimately show ?thesis using d by blast
qed

theorem threshold_setting_ignored_witness:
  "\<exists>r w'. detectAnomalies env0 (rules_scored 35) 7 login0 world_threshold70 = (Inr r, w') \<and>
      60 < (70::int) \<and> isSuspicious r"
  using threshold_setting_ignored by auto

text \<open>
  C2, as the claim states it, fails: with the insert into \<open>user_login_logs\<close> failing,
  \<open>detectAnomalies\<close> returns no assessment.
\<close>

theorem insert_failure_no_assessment:
  "\<not> (\<exists>r. fst (detectAnomalies env_insert_fails (rules_scored 25) 7 login0 world0) = Inr r)"
  by (simp add: detectAnomalies_def recordLoginLog_def env_insert_fails_def Let_def
      split: prod.splits)

text \<open>
  C2, amended. \<open>recordLoginLog\<close> throws a failed insert again and so does
  \<open>detectAnomalies\<close>: the caller receives the persistence error, no assessment, and no
  row is added. The assessment is returned exactly when the insert succeeds.
\<close>

theorem insert_failure_propagates:
  "(db_fails e InsertLoginLog \<longrightarrow>
      fst (detectAnomalies e rules uid ld w) = Inl PersistenceFailure \<and>
      login_logs (snd (detectAnomalies e rules uid ld w)) = login_logs w) \<and>
   (\<not> db_fails e InsertLoginLog \<longrightarrow>
      (\<exists>r. fst (detectAnomalies e rules uid ld w) = Inr r))"
  using detect_throws[of e rules uid ld w] detect_returns[of e rules uid ld w] by force

theorem insert_failure_propagates_witness:
  "fst (detectAnomalies env_insert_fails (rules_scored 25) 7 login0 world0) =
     Inl PersistenceFailure \<and>
   (\<exists>r. fst (detectAnomalies env0 (rules_scored 25) 7 login0 world0) = Inr r)"
  using insert_failure_propagates[of env_insert_fails "rules_scored 25" 7 login0 world0]
    insert_failure_propagates[of env0 "rules_scored 25" 7 login0 world0]
  by (simp add: env_insert_fails_def env0_def)

text \<open>
  C8. With the new-device rule enabled and both queries on \<open>user_trusted_devices\<close>
  succeeding, the check triggers exactly when the user has no row with the login's
  fingerprint but has some row; it then contributes the rule's score. And whatever the
  rule, the storage and the fingerprint: a user without any trusted device is never
  flagged.
\<close>

theorem new_device_trigger:
  "(rules rule_new_device = Some rule \<and> \<not> db_fails e SelectTrustedDevice \<and>
    \<not> db_fails e CountTrustedDevices \<longrightarrow>
      (isAnomalous (checkDeviceAnomaly e rules uid dev ip w) \<longleftrightarrow>
         (uid, generateDeviceFingerprint e dev ip) \<notin> set (trusted_devices w) \<and>
         (\<exists>f. (uid, f) \<in> set (trusted_devices w))) \<and>
      (isAnomalous (checkDeviceAnomaly e rules uid dev ip w) \<longrightarrow>
         riskScore (checkDeviceAnomaly e rules uid dev ip w) = rule_riskScore rule)) \<and>
   ((\<forall>f. (uid, f) \<notin> set (trusted_devices w)) \<longrightarrow>
      \<not> isAnomalous (checkDeviceAnomaly e rules uid dev ip w))"
  by (auto simp: checkDeviceAnomaly_def notAnomalous_def Let_def filter_empty_conv
      split: option.splits)

theorem new_device_trigger_witness:
  "isAnomalous (checkDeviceAnomaly env0 (rules_scored 25) 7 (parseDevice env0 ''Mozilla'')
      ''10.0.0.1'' world0) \<and>
   riskScore (checkDeviceAnomaly env0 (rules_scored 25) 7 (parseDevice env0 ''Mozilla'')
      ''10.0.0.1'' world0) = 25 \<and>
   \<not> isAnomalous (checkDeviceAnomaly env0 (rules_scored 25) 8 (parseDevice env0 ''Mozilla'')
      ''10.0.0.1'' world0)"
proof -
  let ?dev = "parseDevice env0 ''Mozilla''"
  let ?rule = "\<lparr>rule_type = ''device'', rule_description = [], rule_riskScore = 25,
                conditions = cond0\<rparr>"
  have r: "rules_scored 25 rule_new_device = Some ?rule"
    using rule_names_distinct by (simp add: rules_scored_def)
  have fp: "generateDeviceFingerprint env0 ?dev ''10.0.0.1'' \<noteq> ''other''"
    by (simp add: generateDeviceFingerprint_def parseDevice_def env0_def ua0_def
        getDeviceType_def tmpl_def Let_def)
  have a: "isAnomalous (checkDeviceAnomaly env0 (rules_scored 25) 7 ?dev ''10.0.0.1'' world0)"
    using new_device_trigger[of "rules_scored 25" ?rule env0 7 ?dev "''10.0.0.1''" world0] r fp
    by (simp add: env0_def world0_def)
  have b: "riskScore (checkDeviceAnomaly env0 (rules_scored 25) 7 ?dev ''10.0.0.1'' world0) = 25"
    using new_device_trigger[of "rules_scored 25" ?rule env0 7 ?dev "''10.0.0.1''" world0] r a
    by (simp add: env0_def)
  have c: "\<not> isAnomalous (checkDeviceAnomaly env0 (rules_scored 25) 8 ?dev ''10.0.0.1'' world0)"
    using new_device_trigger[of "rules_scored 25" ?rule env0 8 ?dev "''10.0.0.1''" world0]
    by (simp add: world0_def)
  from a b c show ?thesis by simp
qed

text \<open>
  C9. With the IP rule enabled, the check triggers exactly when the location has the
  proxy, VPN or Tor flag or a threat level \<open>high\<close> or \<open>medium\<close>; its score is then the
  sum of 20 (proxy), 15 (VPN), 30 (Tor) and 25 (high) or else 15 (medium), capped at the
  rule's score.
\<close>

theorem ip_reputation_score:
  assumes "rules rule_suspicious_ip = Some rule"
  shows "(isAnomalous (checkIPReputation rules loc) \<longleftrightarrow>
            (is_proxy loc \<or> is_vpn loc \<or> is_tor loc \<or> threat_level loc = ''high'' \<or>
             threat_level loc = ''medium'')) \<and>
         (isAnomalous (checkIPReputation rules loc) \<longrightarrow>
            riskScore (checkIPReputation rules loc) =
              min ((if is_proxy loc then 20 else 0) + (if is_vpn loc then 15 else 0) +
                   (if is_tor loc then 30 else 0) +
                   (if threat_level loc = ''high'' then 25
                    else if threat_level loc = ''medium'' then 15 else 0))
                  (rule_riskScore rule))"
  using assms by (simp add: checkIPReputation_def notAnomalous_def Let_def)

theorem ip_reputation_score_witness:
  "isAnomalous (checkIPReputation (rules_scored 25) loc_risky) \<and>
   riskScore (checkIPReputation (rules_scored 25) loc_risky) = 30 \<and>
   isAnomalous (checkIPReputation (rules_scored 25) (loc0\<lparr>is_vpn := True\<rparr>)) \<and>
   riskScore (checkIPReputation (rules_scored 25) (loc0\<lparr>is_vpn := True\<rparr>)) = 15 \<and>
   \<not> isAnomalous (checkIPReputation (rules_scored 25) loc0)"
proof -
  let ?rule = "\<lparr>rule_type = ''ip_reputation'', rule_description = [], rule_riskScore = 30,
                conditions = cond0\<rparr>"
  have r: "rules_scored 25 rule_suspicious_ip = Some ?rule"
    using rule_names_distinct by (simp add: rules_scored_def)
  show ?thesis
    using r ip_reputation_score[of "rules_scored 25" ?rule loc_risky]
      ip_reputation_score[of "rules_scored 25" ?rule loc0]
      ip_reputation_score[of "rules_scored 25" ?rule "loc0\<lparr>is_vpn := True\<rparr>"]
    by (simp add: loc_risky_def loc0_def)
qed

lemma rule_absent_not_anomalous:
  "rules rule_suspicious_ip = None \<Longrightarrow> checkIPReputation rules loc = notAnomalous"
  "rules rule_new_device = None \<Longrightarrow> checkDeviceAnomaly e rules uid dev ip w = notAnomalous"
  by (simp_all add: checkIPReputation_def checkDeviceAnomaly_def)

section \<open>Properties of the distance\<close>

lemma half_sq_sym:
  "sin (toRadians (x - y) / 2) * sin (toRadians (x - y) / 2) =
   sin (toRadians (y - x) / 2) * sin (toRadians (y - x) / 2)"
proof -
  have "x - y = - (y - x)" by simp
  then have "toRadians (x - y) / 2 = - (toRadians (y - x) / 2)"
    unfolding toRadians_def by (metis minus_divide_left mult_minus_left)
  then show ?thesis by (simp only: sin_minus minus_mult_minus)
qed

text \<open>On the reals the distance is symmetric, whether or not it is \<open>null\<close>.\<close>

lemma calculateDistance_sym:
  "calculateDistance lat1 lon1 lat2 lon2 = calculateDistance lat2 lon2 lat1 lon1"
proof (cases "falsy lat1 \<or> falsy lon1 \<or> falsy lat2 \<or> falsy lon2")
  case True
  then show ?thesis by (auto simp: calculateDistance_def)
next
  case False
  then obtain a b c d
    where v: "lat1 = Some a" "lon1 = Some b" "lat2 = Some c" "lon2 = Some d"
    by (auto simp: falsy_def split: option.splits)
  have "sin (toRadians (c - a) / 2) * sin (toRadians (c - a) / 2) +
        cos (toRadians a) * cos (toRadians c) *
        sin (toRadians (d - b) / 2) * sin (toRadians (d - b) / 2) =
        sin (toRadians (a - c) / 2) * sin (toRadians (a - c) / 2) +
        cos (toRadians c) * cos (toRadians a) *
        sin (toRadians (b - d) / 2) * sin (toRadians (b - d) / 2)"
    using half_sq_sym[of c a] half_sq_sym[of d b] by (simp add: mult.assoc mult.commute)
  then show ?thesis using False v
    by (simp add: calculateDistance_def Let_def)
qed

text \<open>A point with both coordinates present and not zero is at distance 0 from itself.\<close>

lemma calculateDistance_self:
  "\<not> falsy lat \<Longrightarrow> \<not> falsy lon \<Longrightarrow> calculateDistance lat lon lat lon = Some 0"
  by (auto simp: calculateDistance_def falsy_def toRadians_def atan2_def Let_def
      split: option.splits)

text \<open>The result is \<open>null\<close> exactly when a coordinate is missing or is zero.\<close>

lemma calculateDistance_null_iff:
  "calculateDistance lat1 lon1 lat2 lon2 = None \<longleftrightarrow>
     falsy lat1 \<or> falsy lon1 \<or> falsy lat2 \<or> falsy lon2"
  by (auto simp: calculateDistance_def falsy_def Let_def split: option.splits)

text \<open>
  C6, at a point on the equator. All four coordinates are present, yet \<open>!lat1\<close> holds
  of the number 0 and the function returns \<open>null\<close>, not the distance 0.
\<close>

theorem distance_on_equator_is_null:
  "calculateDistance (Some 0) (Some 10) (Some 0) (Some 10) = None"
  by (simp add: calculateDistance_def falsy_def)

theorem distance_on_equator_is_null_witness:
  "calculateDistance (Some 0) (Some 10) (Some 0) (Some 10) \<noteq> Some 0"
  using distance_on_equator_is_null by simp


section \<open>Properties of the notification queue\<close>

lemma send_each_frame:
  "alerts (send_each e tr a c admins st) = alerts st \<and>
   alertQueue (send_each e tr a c admins st) = alertQueue st \<and>
   isProcessing (send_each e tr a c admins st) = isProcessing st"
  by (induction admins arbitrary: st) (simp_all add: Let_def)

lemma sendNotifications_frame:
  "alerts (sendNotifications e a st) = alerts st \<and>
   alertQueue (sendNotifications e a st) = alertQueue st \<and>
   isProcessing (sendNotifications e a st) = isProcessing st"
  by (simp add: sendNotifications_def sendEmailNotifications_def send_each_frame Let_def
      split: option.splits sum.splits)

lemma drain_queue_alerts: "alerts (drain_queue e q st) = alerts st"
  by (induction q arbitrary: st) (simp_all add: Let_def sendNotifications_frame)

lemma processNotificationQueue_alerts: "alerts (processNotificationQueue e st) = alerts st"
  by (simp add: processNotificationQueue_def drain_queue_alerts)

text \<open>
  The loop over the administrators logs one call per administrator, in order, whatever
  the transporter answers; the calls lie between the clock at entry and at exit.
\<close>

lemma send_each_calls:
  "\<exists>new d. send_each e tr a c admins st =
              st\<lparr>outbox := outbox st @ new, clock := clock st + int d\<rparr> \<and>
     map call_key new = map (\<lambda>adm. (alertId a, adm_email adm)) admins \<and>
     (\<forall>s \<in> set new. sent_alert s = alertId a \<and> clock st \<le> sent_at s \<and>
        sent_at s \<le> clock st + int d \<and> delivered s = tr (sent_mail s))"
proof (induction admins arbitrary: st)
  case Nil
  show ?case by (rule exI[of _ "[]"], rule exI[of _ 0]) simp
next
  case (Cons adm rest)
  let ?mail = "\<lparr>mail_to = adm_email adm, mail_content = c\<rparr>"
  let ?call = "\<lparr>sent_at = clock st, sent_alert = alertId a, sent_mail = ?mail,
                delivered = tr ?mail\<rparr>"
  let ?st1 = "st\<lparr>outbox := outbox st @ [?call],
                 clock := clock st + int (send_duration e ?mail)\<rparr>"
  from Cons.IH[of ?st1] obtain new d where
    eq: "send_each e tr a c rest ?st1 =
           ?st1\<lparr>outbox := outbox ?st1 @ new, clock := clock ?st1 + int d\<rparr>"
    and keys: "map call_key new = map (\<lambda>adm. (alertId a, adm_email adm)) rest"
    and each: "\<forall>s \<in> set new. sent_alert s = alertId a \<and> clock ?st1 \<le> sent_at s \<and>
                 sent_at s \<le> clock ?st1 + int d \<and> delivered s = tr (sent_mail s)"
    by blast
  show ?case
  proof (rule exI[of _ "?call # new"], rule exI[of _ "send_duration e ?mail + d"],
      intro conjI)
    show "send_each e tr a c (adm # rest) st =
          st\<lparr>outbox := outbox st @ ?call # new,
             clock := clock st + int (send_duration e ?mail + d)\<rparr>"
      using eq by (simp add: Let_def)
    show "map call_key (?call # new) = map (\<lambda>adm. (alertId a, adm_email adm)) (adm # rest)"
      using keys by (simp add: call_key_def)
    show "\<forall>s \<in> set (?call # new). sent_alert s = alertId a \<and> clock st \<le> sent_at s \<and>
            sent_at s \<le> clock st + int (send_duration e ?mail + d) \<and>
            delivered s = tr (sent_mail s)"
      using each by auto
  qed
qed

lemma sendNotifications_calls:
  assumes "emailTransporter e = Some tr" "\<not> ndb_fails e SelectAdmins"
    "getEmailTemplate e = JObj (Some sub) (Some b)"
  shows "\<exists>new d. sendNotifications e a st =
                   st\<lparr>outbox := outbox st @ new, clock := clock st + int d\<rparr> \<and>
     map call_key new = map (\<lambda>adm. (alertId a, adm_email adm)) (active_admins e) \<and>
     (\<forall>s \<in> set new. sent_alert s = alertId a \<and> clock st \<le> sent_at s \<and>
        sent_at s \<le> clock st + int d \<and> delivered s = tr (sent_mail s))"
proof (cases "active_admins e = []")
  case True
  have "sendNotifications e a st = st"
    using True assms by (simp add: sendNotifications_def getAdministrators_def)
  then show ?thesis using True
    by (intro exI[of _ "[]"] exI[of _ 0]) simp
next
  case False
  obtain c
    where c: "prepareEmailContent e (getEmailTemplate e) a (getUserInfo e (userId a)) = Inr c"
    using assms(3) by (simp add: prepareEmailContent_def Let_def)
  have "sendNotifications e a st = send_each e tr a c (active_admins e) st"
    using False assms c
    by (simp add: sendNotifications_def getAdministrators_def sendEmailNotifications_def)
  then show ?thesis using send_each_calls[of e tr a c "active_admins e" st] by simp
qed

lemma drain_calls:
  assumes "emailTransporter e = Some tr" "\<not> ndb_fails e SelectAdmins"
    "getEmailTemplate e = JObj (Some sub) (Some b)"
  shows "\<exists>new d. drain_queue e q st =
            st\<lparr>alertQueue := (if q = [] then alertQueue st else []),
               outbox := outbox st @ new, clock := clock st + int d\<rparr> \<and>
     map call_key new = expected_calls e q \<and>
     (\<forall>s \<in> set new. clock st \<le> sent_at s \<and> delivered s = tr (sent_mail s)) \<and>
     sorted_wrt spaced_across_alerts new"
proof (induction q arbitrary: st)
  case Nil
  show ?case by (rule exI[of _ "[]"], rule exI[of _ 0]) (simp add: expected_calls_def)
next
  case (Cons a rest)
  let ?st0 = "st\<lparr>alertQueue := rest\<rparr>"
  from sendNotifications_calls[OF assms, of a ?st0] obtain n1 d1 where
    s1: "sendNotifications e a ?st0 =
           ?st0\<lparr>outbox := outbox ?st0 @ n1, clock := clock ?st0 + int d1\<rparr>"
    and k1: "map call_key n1 = map (\<lambda>adm. (alertId a, adm_email adm)) (active_admins e)"
    and e1: "\<forall>s \<in> set n1. sent_alert s = alertId a \<and> clock ?st0 \<le> sent_at s \<and>
               sent_at s \<le> clock ?st0 + int d1 \<and> delivered s = tr (sent_mail s)"
    by blast
  let ?st1 = "?st0\<lparr>outbox := outbox ?st0 @ n1, clock := clock ?st0 + int d1\<rparr>"
  let ?st2 = "?st1\<lparr>clock := clock ?st1 + 1000 + int (timer_lag e)\<rparr>"
  from Cons.IH[of ?st2] obtain n2 d2 where
    s2: "drain_queue e rest ?st2 =
           ?st2\<lparr>alertQueue := (if rest = [] then alertQueue ?st2 else []),
                outbox := outbox ?st2 @ n2, clock := clock ?st2 + int d2\<rparr>"
    and k2: "map call_key n2 = expected_calls e rest"
    and e2: "\<forall>s \<in> set n2. clock ?st2 \<le> sent_at s \<and> delivered s = tr (sent_mail s)"
    and sp2: "sorted_wrt spaced_across_alerts n2"
    by blast
  have sp1: "sorted_wrt spaced_across_alerts n1"
    using e1 by (auto simp: sorted_wrt_iff_nth_less spaced_across_alerts_def)
  have cross: "\<forall>x \<in> set n1. \<forall>y \<in> set n2. spaced_across_alerts x y"
    using e1 e2 by (fastforce simp: spaced_across_alerts_def)
  show ?case
  proof (rule exI[of _ "n1 @ n2"], rule exI[of _ "d1 + 1000 + timer_lag e + d2"],
      intro conjI)
    show "drain_queue e (a # rest) st =
          st\<lparr>alertQueue := (if a # rest = [] then alertQueue st else []),
             outbox := outbox st @ n1 @ n2,
             clock := clock st + int (d1 + 1000 + timer_lag e + d2)\<rparr>"
      using s1 s2 by (simp add: Let_def)
    show "map call_key (n1 @ n2) = expected_calls e (a # rest)"
      using k1 k2 by (simp add: expected_calls_def)
    show "\<forall>s \<in> set (n1 @ n2). clock st \<le> sent_at s \<and> delivered s = tr (sent_mail s)"
      using e1 e2 by auto
    show "sorted_wrt spaced_across_alerts (n1 @ n2)"
      using sp1 sp2 cross by (simp add: sorted_wrt_append)
  qed
qed

text \<open>Without a transporter no mail is sent.\<close>

lemma no_transporter_no_calls:
  assumes "emailTransporter e = None"
  shows "outbox (processNotificationQueue e st) = outbox st"
proof -
  have one: "\<And>a st'. outbox (sendNotifications e a st') = outbox st'"
    using assms by (simp add: sendNotifications_def sendEmailNotifications_def Let_def)
  have "\<And>st'. outbox (drain_queue e q st') = outbox st'" for q
    by (induction q) (simp_all add: Let_def one)
  then show ?thesis by (simp add: processNotificationQueue_def)
qed

lemma length_expected_calls:
  "length (expected_calls e q) = length q * length (active_admins e)"
  by (induction q) (simp_all add: expected_calls_def)

text \<open>
  What the queue does when there is a transporter, the administrators' query succeeds
  and the template has its subject and body. A run then issues, for every queued alert in
  queue order, one \<open>sendMail\<close> per active administrator: \<open>N\<close> calls per alert, none
  dropped when a call is rejected (\<open>delivered\<close> only records the transporter's answer).
  Calls for different alerts are at least 1000 ms apart; the calls for one alert follow
  each other without a pause. The queue is empty afterwards.
\<close>

lemma queue_run_with_transporter:
  assumes "emailTransporter e = Some tr" "\<not> ndb_fails e SelectAdmins"
    "getEmailTemplate e = JObj (Some sub) (Some b)" "\<not> isProcessing st"
  shows "outbox (processNotificationQueue e st) = outbox st @ new_calls e st \<and>
         map call_key (new_calls e st) = expected_calls e (alertQueue st) \<and>
         length (new_calls e st) = length (alertQueue st) * length (active_admins e) \<and>
         (\<forall>s \<in> set (new_calls e st). delivered s = tr (sent_mail s)) \<and>
         sorted_wrt spaced_across_alerts (new_calls e st) \<and>
         alertQueue (processNotificationQueue e st) = [] \<and>
         \<not> isProcessing (processNotificationQueue e st)"
proof (cases "alertQueue st = []")
  case True
  then show ?thesis using assms(4)
    by (simp add: processNotificationQueue_def new_calls_def expected_calls_def)
next
  case False
  let ?st0 = "st\<lparr>isProcessing := True\<rparr>"
  from drain_calls[OF assms(1-3), of "alertQueue st" ?st0] False obtain new d where
    dq: "drain_queue e (alertQueue st) ?st0 =
           ?st0\<lparr>alertQueue := [], outbox := outbox ?st0 @ new, clock := clock ?st0 + int d\<rparr>"
    and k: "map call_key new = expected_calls e (alertQueue st)"
    and ev: "\<forall>s \<in> set new. clock ?st0 \<le> sent_at s \<and> delivered s = tr (sent_mail s)"
    and sp: "sorted_wrt spaced_across_alerts new"
    by auto
  have nc: "new_calls e st = new"
    using False assms(4) dq by (simp add: new_calls_def processNotificationQueue_def)
  have len: "length new = length (alertQueue st) * length (active_admins e)"
    using k length_expected_calls[of e "alertQueue st"] by (metis length_map)
  show ?thesis using False assms(4) dq k ev sp nc len
    by (simp add: processNotificationQueue_def)
qed

text \<open>
  Three administrators, the second one's mail rejected, two alerts, each \<open>sendMail\<close>
  taking 20 ms: six calls, the three of one alert 20 ms apart.
\<close>

lemma queue_run_with_transporter_example:
  "map call_key (new_calls nenv0 nstate0) =
     [(11, ''a@example.com''), (11, ''b@example.com''), (11, ''c@example.com''),
      (12, ''a@example.com''), (12, ''b@example.com''), (12, ''c@example.com'')] \<and>
   map delivered (new_calls nenv0 nstate0) = [True, False, True, True, False, True] \<and>
   map sent_at (new_calls nenv0 nstate0) = [0, 20, 40, 1065, 1085, 1105] \<and>
   length (new_calls nenv0 nstate0) = 2 * 3"
proof -
  let ?tr = "\<lambda>m. mail_to m \<noteq> ''b@example.com''"
  have t: "emailTransporter nenv0 = Some ?tr" by (simp add: nenv0_def)
  have a: "\<not> ndb_fails nenv0 SelectAdmins" by (simp add: nenv0_def)
  obtain sub b where tp: "getEmailTemplate nenv0 = JObj (Some sub) (Some b)"
    by (simp add: getEmailTemplate_def nenv0_def default_template_def)
  have p: "\<not> isProcessing nstate0" by (simp add: nstate0_def)
  note run_ok = queue_run_with_transporter[OF t a tp p]
  have keys: "map call_key (new_calls nenv0 nstate0) =
     [(11, ''a@example.com''), (11, ''b@example.com''), (11, ''c@example.com''),
      (12, ''a@example.com''), (12, ''b@example.com''), (12, ''c@example.com'')]"
    using run_ok
    by (simp add: expected_calls_def nenv0_def nstate0_def admins3_def alert1_def alert2_def)
  have len: "length (new_calls nenv0 nstate0) = 2 * 3"
    using run_ok by (simp add: nenv0_def nstate0_def admins3_def)
  have d: "map delivered (new_calls nenv0 nstate0) = [True, False, True, True, False, True]"
    by (simp add: new_calls_def processNotificationQueue_def sendNotifications_def
        sendEmailNotifications_def getAdministrators_def getEmailTemplate_def
        prepareEmailContent_def getUserInfo_def default_template_def
        nenv0_def nstate0_def admins3_def alert1_def alert2_def Let_def)
  have s: "map sent_at (new_calls nenv0 nstate0) = [0, 20, 40, 1065, 1085, 1105]"
    by (simp add: new_calls_def processNotificationQueue_def sendNotifications_def
        sendEmailNotifications_def getAdministrators_def getEmailTemplate_def
        prepareEmailContent_def getUserInfo_def default_template_def
        nenv0_def nstate0_def admins3_def alert1_def alert2_def Let_def)
  from keys d s len show ?thesis by simp
qed

text \<open>
  A template stored without its subject or body makes \<open>prepareEmailContent\<close> throw,
  and no mail is sent.
\<close>

lemma template_without_body_no_calls:
  assumes "getEmailTemplate e = JObj sub None"
  shows "outbox (processNotificationQueue e st) = outbox st"
proof -
  have p: "\<And>a u. \<exists>err. prepareEmailContent e (JObj sub None) a u = Inl err"
    by (cases sub) (simp_all add: prepareEmailContent_def)
  have one: "outbox (sendNotifications e a st') = outbox st'" for a st'
    using assms p[of a "getUserInfo e (userId a)"]
    by (auto simp: sendNotifications_def sendEmailNotifications_def Let_def
        split: option.splits)
  have "outbox (drain_queue e q st') = outbox st'" for q st'
    by (induction q arbitrary: st') (simp_all add: Let_def one)
  then show ?thesis by (simp add: processNotificationQueue_def)
qed

lemma constructed_without_factory:
  assumes "createTransporter lib = None"
  shows "emailTransporter (constructed lib e) = None \<and> new_calls (constructed lib e) st = []"
proof -
  have n: "emailTransporter (constructed lib e) = None"
    using assms by (simp add: constructed_def initializeEmailTransporter_def)
  from no_transporter_no_calls[OF n, of st] show ?thesis using n
    by (simp add: new_calls_def)
qed

text \<open>
  C4, for the service as its constructor leaves it. The constructor asks the mail library
  for \<open>createTransporter\<close>, a property the library does not have, so the transporter
  stays \<open>null\<close> and \<open>sendEmailNotifications\<close> returns before its loop. With three
  active administrators and two queued alerts the run issues no \<open>sendMail\<close> at all, and
  the two alerts are gone from the queue.
\<close>

theorem no_mail_is_sent:
  "emailTransporter (constructed nodemailer nenv0) = None \<and>
   length (active_admins (constructed nodemailer nenv0)) = 3 \<and>
   length (alertQueue nstate0) = 2 \<and>
   new_calls (constructed nodemailer nenv0) nstate0 = [] \<and>
   alertQueue (processNotificationQueue (constructed nodemailer nenv0) nstate0) = []"
proof -
  have c: "createTransporter nodemailer = None" by (simp add: nodemailer_def)
  note none = constructed_without_factory[OF c, of nenv0 nstate0]
  have t: "emailTransporter (constructed nodemailer nenv0) = None"
    and n: "new_calls (constructed nodemailer nenv0) nstate0 = []"
    using none by simp_all
  have a: "length (active_admins (constructed nodemailer nenv0)) = 3"
    by (simp add: constructed_def nenv0_def admins3_def)
  have l: "length (alertQueue nstate0) = 2"
    by (simp add: nstate0_def)
  have q: "alertQueue (processNotificationQueue (constructed nodemailer nenv0) nstate0) = []"
    by (simp add: processNotificationQueue_def sendNotifications_frame nstate0_def Let_def)
  from t a l n q show ?thesis by simp
qed

theorem no_mail_is_sent_witness:
  "length (new_calls (constructed nodemailer nenv0) nstate0) = 0"
  using no_mail_is_sent by simp

section \<open>Properties of alert resolution\<close>

lemma createSecurityAlert_alerts:
  "\<exists>rows. alerts (snd (createSecurityAlert e a st)) = alerts st @ rows"
  by (simp add: createSecurityAlert_def Let_def processNotificationQueue_alerts)

lemma resolve_first:
  assumes "1 \<le> aid" "aid \<le> length (alerts st)" "\<not> is_resolved (alerts st ! (aid - 1))"
    "\<not> ndb_fails e SelectAlert" "\<not> ndb_fails e UpdateAlert"
    "\<forall>n. nts = Some n \<longrightarrow> length (trim n) \<le> 1000"
  shows "resolve_route e admin aid nts st =
           (Ok200, st\<lparr>alerts := (alerts st)[aid - 1 :=
              (alerts st ! (aid - 1))\<lparr>is_resolved := True, resolved_by := Some admin,
                 resolved_at := Some (clock st),
                 resolution_notes := map_option trim nts\<rparr>]\<rparr>)"
  using assms by (cases nts) (auto simp: resolve_route_def resolveAlert_def Let_def)

lemma resolve_ok_resolved:
  assumes "fst (resolve_route e admin aid nts st) = Ok200"
  shows "1 \<le> aid \<and> aid \<le> length (alerts (snd (resolve_route e admin aid nts st))) \<and>
         is_resolved (alerts (snd (resolve_route e admin aid nts st)) ! (aid - 1))"
  using assms
  by (auto simp: resolve_route_def resolveAlert_def Let_def split: if_splits option.splits)

lemma resolve_again:
  assumes "1 \<le> aid" "aid \<le> length (alerts st)" "is_resolved (alerts st ! (aid - 1))"
  shows "snd (resolve_route e admin aid nts st) = st \<and>
         fst (resolve_route e admin aid nts st) \<in> {BadRequest400, ServerError500} \<and>
         (\<not> ndb_fails e SelectAlert \<longrightarrow> fst (resolve_route e admin aid nts st) = BadRequest400)"
  using assms by (auto simp: resolve_route_def Let_def)

lemma resolve_keeps_resolved:
  assumes "i < length (alerts st)" "is_resolved (alerts st ! i)"
  shows "i < length (alerts (snd (resolve_route e admin aid nts st))) \<and>
         alerts (snd (resolve_route e admin aid nts st)) ! i = alerts st ! i"
proof (cases "aid - 1 = i")
  case True
  then show ?thesis using assms
    by (auto simp: resolve_route_def resolveAlert_def Let_def split: option.splits)
next
  case False
  then show ?thesis using assms
    by (auto simp: resolve_route_def resolveAlert_def Let_def split: option.splits)
qed

text \<open>
  \<open>resolveAlert\<close> called directly does not check the flag: on a resolved row it writes
  resolver, time and notes anew, and the row stays resolved.
\<close>

lemma resolveAlert_keeps_flag:
  assumes "i < length (alerts st)" "is_resolved (alerts st ! i)"
    "resolveAlert e aid admin nts st = Inr st'"
  shows "i < length (alerts st') \<and> is_resolved (alerts st' ! i)"
proof (cases "aid - 1 = i")
  case True
  then show ?thesis using assms
    by (auto simp: resolveAlert_def split: if_splits)
next
  case False
  then show ?thesis using assms
    by (auto simp: resolveAlert_def split: if_splits)
qed

lemma apply_op_keeps_resolved:
  assumes "i < length (alerts st)" "is_resolved (alerts st ! i)"
  shows "i < length (alerts (apply_op x st)) \<and> alerts (apply_op x st) ! i = alerts st ! i"
proof (cases x)
  case (Pair e op)
  show ?thesis
  proof (cases op)
    case (OpCreate a)
    obtain rows where "alerts (snd (createSecurityAlert e a st)) = alerts st @ rows"
      using createSecurityAlert_alerts by blast
    then show ?thesis using Pair OpCreate assms by (simp add: nth_append)
  next
    case (OpResolve admin aid nts)
    then show ?thesis using Pair assms resolve_keeps_resolved by simp
  next
    case (OpTick ms)
    then show ?thesis using Pair assms by simp
  qed
qed

lemma fold_keeps_resolved:
  "i < length (alerts st) \<Longrightarrow> is_resolved (alerts st ! i) \<Longrightarrow>
     i < length (alerts (fold apply_op ops st)) \<and>
     alerts (fold apply_op ops st) ! i = alerts st ! i"
proof (induction ops arbitrary: st)
  case Nil
  then show ?case by simp
next
  case (Cons x ops)
  from apply_op_keeps_resolved[OF Cons.prems, of x]
  have a: "i < length (alerts (apply_op x st))"
    and b: "alerts (apply_op x st) ! i = alerts st ! i"
    by simp_all
  from Cons.prems(2) b have c: "is_resolved (alerts (apply_op x st) ! i)" by simp
  from Cons.IH[OF a c] b show ?case by simp
qed

text \<open>
  C5. (1) The resolve route on an existing, unresolved alert, with valid input and the
  storage working, answers 200 and sets the resolved flag, the resolver, the time and the
  notes of that row. (2) After a call that answered 200, any further resolve call on the
  same alert is refused (400; 500 if the lookup fails) and changes nothing. (3) Through
  any sequence of alert creations, resolve requests and lapses of time, a resolved row
  stays exactly as it is: still resolved, same resolver, same time, same notes.
\<close>

theorem resolved_is_terminal:
  "(1 \<le> aid \<and> aid \<le> length (alerts st) \<and> \<not> is_resolved (alerts st ! (aid - 1)) \<and>
    \<not> ndb_fails e SelectAlert \<and> \<not> ndb_fails e UpdateAlert \<and>
    (\<forall>n. nts = Some n \<longrightarrow> length (trim n) \<le> 1000) \<longrightarrow>
      resolve_route e admin aid nts st =
        (Ok200, st\<lparr>alerts := (alerts st)[aid - 1 :=
           (alerts st ! (aid - 1))\<lparr>is_resolved := True, resolved_by := Some admin,
              resolved_at := Some (clock st),
              resolution_notes := map_option trim nts\<rparr>]\<rparr>)) \<and>
   (fst (resolve_route e admin aid nts st) = Ok200 \<longrightarrow>
      snd (resolve_route e2 admin2 aid nts2 (snd (resolve_route e admin aid nts st))) =
        snd (resolve_route e admin aid nts st) \<and>
      fst (resolve_route e2 admin2 aid nts2 (snd (resolve_route e admin aid nts st)))
        \<in> {BadRequest400, ServerError500} \<and>
      (\<not> ndb_fails e2 SelectAlert \<longrightarrow>
         fst (resolve_route e2 admin2 aid nts2 (snd (resolve_route e admin aid nts st))) =
           BadRequest400)) \<and>
   (i < length (alerts st) \<and> is_resolved (alerts st ! i) \<longrightarrow>
      i < length (alerts (fold apply_op ops st)) \<and>
      alerts (fold apply_op ops st) ! i = alerts st ! i)"
proof (intro conjI impI)
  assume "1 \<le> aid \<and> aid \<le> length (alerts st) \<and> \<not> is_resolved (alerts st ! (aid - 1)) \<and>
    \<not> ndb_fails e SelectAlert \<and> \<not> ndb_fails e UpdateAlert \<and>
    (\<forall>n. nts = Some n \<longrightarrow> length (trim n) \<le> 1000)"
  then show "resolve_route e admin aid nts st =
        (Ok200, st\<lparr>alerts := (alerts st)[aid - 1 :=
           (alerts st ! (aid - 1))\<lparr>is_resolved := True, resolved_by := Some admin,
              resolved_at := Some (clock st),
              resolution_notes := map_option trim nts\<rparr>]\<rparr>)"
    using resolve_first[of aid st e nts admin] by blast
next
  assume ok: "fst (resolve_route e admin aid nts st) = Ok200"
  let ?st1 = "snd (resolve_route e admin aid nts st)"
  from resolve_ok_resolved[OF ok]
  have r: "1 \<le> aid" "aid \<le> length (alerts ?st1)" "is_resolved (alerts ?st1 ! (aid - 1))"
    by simp_all
  from resolve_again[OF r, of e2 admin2 nts2]
  show "snd (resolve_route e2 admin2 aid nts2 ?st1) = ?st1"
    and "fst (resolve_route e2 admin2 aid nts2 ?st1) \<in> {BadRequest400, ServerError500}"
    by simp_all
  assume "\<not> ndb_fails e2 SelectAlert"
  with resolve_again[OF r, of e2 admin2 nts2]
  show "fst (resolve_route e2 admin2 aid nts2 ?st1) = BadRequest400" by simp
next
  assume "i < length (alerts st) \<and> is_resolved (alerts st ! i)"
  then show "i < length (alerts (fold apply_op ops st))"
    and "alerts (fold apply_op ops st) ! i = alerts st ! i"
    using fold_keeps_resolved[of i st ops] by simp_all
qed

theorem resolved_is_terminal_witness:
  "resolve_route nenv0 9 1 (Some '' fixed '') nstate1 =
     (Ok200, nstate1\<lparr>alerts := [open_alert\<lparr>is_resolved := True, resolved_by := Some 9,
        resolved_at := Some 500, resolution_notes := Some ''fixed''\<rparr>]\<rparr>) \<and>
   resolve_route nenv0 8 1 None (snd (resolve_route nenv0 9 1 (Some '' fixed '') nstate1)) =
     (BadRequest400, snd (resolve_route nenv0 9 1 (Some '' fixed '') nstate1)) \<and>
   alerts (fold apply_op
       [(nenv0, OpCreate (sa_data open_alert)), (nenv0, OpResolve 8 1 None), (nenv0, OpTick 5)]
       (snd (resolve_route nenv0 9 1 (Some '' fixed '') nstate1))) ! 0 =
     open_alert\<lparr>is_resolved := True, resolved_by := Some 9, resolved_at := Some 500,
        resolution_notes := Some ''fixed''\<rparr>"
proof -
  let ?row = "open_alert\<lparr>is_resolved := True, resolved_by := Some 9, resolved_at := Some 500,
                resolution_notes := Some ''fixed''\<rparr>"
  let ?st1 = "nstate1\<lparr>alerts := [?row]\<rparr>"
  let ?ops = "[(nenv0, OpCreate (sa_data open_alert)), (nenv0, OpResolve 8 1 None),
               (nenv0, OpTick 5)]"
  have tr: "trim '' fixed '' = ''fixed''" by (simp add: trim_def is_space_def)
  have first: "resolve_route nenv0 9 1 (Some '' fixed '') nstate1 = (Ok200, ?st1)"
    using resolved_is_terminal[of 1 nstate1 nenv0 "Some '' fixed ''" 9 nenv0 8 None 0 "[]"] tr
    by (simp add: nstate1_def nenv0_def open_alert_def)
  have second: "resolve_route nenv0 8 1 None ?st1 = (BadRequest400, ?st1)"
    using resolved_is_terminal[of 1 nstate1 nenv0 "Some '' fixed ''" 9 nenv0 8 None 0 "[]"] first
    by (simp add: nenv0_def prod_eq_iff)
  have third: "alerts (fold apply_op ?ops ?st1) ! 0 = ?row"
    using resolved_is_terminal[of 1 ?st1 nenv0 None 8 nenv0 8 None 0 ?ops]
    by (simp add: nstate1_def open_alert_def)
  from first second third show ?thesis by simp
qed


end
